theory Spec2Isabelle
  imports Main "HOL-Library.Sublist" "HOL-Library.AList"
begin

section \<open>JavaScript strings\<close>

text \<open>
  Text is a \<open>string\<close> (a list of 8-bit characters), read as ASCII: \<open>toLowerCase\<close> maps
  \<open>A\<close>..\<open>Z\<close> to \<open>a\<close>..\<open>z\<close> and leaves every other character alone, and the white space
  that \<open>trim\<close> strips is tab, line feed, vertical tab, form feed, carriage return and
  space. The case mappings and white space of characters beyond ASCII are not modelled.
\<close>

definition toLowerCase_char :: "char \<Rightarrow> char" where
  "toLowerCase_char c =
     (if 65 \<le> (of_char c :: nat) \<and> (of_char c :: nat) \<le> 90
      then char_of ((of_char c :: nat) + 32) else c)"

definition toLowerCase :: "string \<Rightarrow> string" where
  "toLowerCase s = map toLowerCase_char s"

text \<open>\<open>s.includes(kw)\<close>: \<open>kw\<close> occurs in \<open>s\<close> as a contiguous run of characters.\<close>

fun str_includes :: "string \<Rightarrow> string \<Rightarrow> bool" where
  "str_includes [] kw = (kw = [])"
| "str_includes (c # cs) kw = (prefix kw (c # cs) \<or> str_includes cs kw)"

text \<open>
  \<open>s.split(sep)\<close> for a separator of one character: the pieces between the separators,
  never an empty array (\<open>''.split('.')\<close> is \<open>['']\<close>), so the first branch of the
  \<open>case\<close> below is never taken.
\<close>

fun split_on :: "char \<Rightarrow> string \<Rightarrow> string list" where
  "split_on sep [] = [[]]"
| "split_on sep (c # cs) =
     (case split_on sep cs of
        [] \<Rightarrow> []
      | w # ws \<Rightarrow> if c = sep then [] # w # ws else (c # w) # ws)"

definition is_white_space :: "char \<Rightarrow> bool" where
  "is_white_space c = ((of_char c :: nat) = 32 \<or> (9 \<le> (of_char c :: nat) \<and> (of_char c :: nat) \<le> 13))"

definition trim :: "string \<Rightarrow> string" where
  "trim s = rev (dropWhile is_white_space (rev (dropWhile is_white_space s)))"

text \<open>\<open>s.substring(0, n)\<close> for \<open>n \<ge> 0\<close>.\<close>

definition substring0 :: "nat \<Rightarrow> string \<Rightarrow> string" where
  "substring0 n s = take n s"

text \<open>
  Case-insensitive containment, as a reader of the specification understands it: some
  contiguous piece of the text spells the keyword once upper-case letters are lowered.
\<close>

definition contains_ci :: "string \<Rightarrow> string \<Rightarrow> bool" where
  "contains_ci text kw = (\<exists>pre mid post. text = pre @ mid @ post \<and> toLowerCase mid = kw)"

section \<open>The classifiers\<close>

record analysis =
  title :: string
  description :: string
  category :: string
  priority :: string
  labels :: "string list"
  complexity :: string

record prompt_analysis = analysis +
  state :: string

record ticket_analysis = analysis +
  workspace :: string

subsection \<open>\<open>PlaneAgent.analyzePrompt\<close> (plane-agent.js)\<close>

definition techKeywords :: "string list" where
  "techKeywords = [''api'', ''database'', ''frontend'', ''backend'', ''ui'', ''ux'',
     ''security'', ''performance'']"

definition prompt_category :: "string \<Rightarrow> string \<times> string" where
  "prompt_category lowerPrompt =
     (if str_includes lowerPrompt ''bug'' \<or> str_includes lowerPrompt ''error'' \<or> str_includes lowerPrompt ''issue''
      then (''BUG'', ''high'')
      else if str_includes lowerPrompt ''feature'' \<or> str_includes lowerPrompt ''add''
              \<or> str_includes lowerPrompt ''implement''
      then (''FEATURE'', ''medium'')
      else if str_includes lowerPrompt ''improve'' \<or> str_includes lowerPrompt ''optimize''
      then (''IMPROVEMENT'', ''low'')
      else (''TASK'', ''medium''))"

definition prompt_urgency :: "string \<Rightarrow> string \<Rightarrow> string" where
  "prompt_urgency lowerPrompt priority0 =
     (if str_includes lowerPrompt ''urgent'' \<or> str_includes lowerPrompt ''asap''
         \<or> str_includes lowerPrompt ''critical''
      then ''urgent''
      else if str_includes lowerPrompt ''low priority'' \<or> str_includes lowerPrompt ''when possible''
      then ''low''
      else priority0)"

definition prompt_title :: "string \<Rightarrow> string" where
  "prompt_title prompt =
     (let t = trim (hd (split_on CHR ''.'' prompt))
      in if length t > 80 then substring0 77 t @ ''...'' else t)"

definition prompt_complexity :: "string \<Rightarrow> string \<Rightarrow> string list \<Rightarrow> string" where
  "prompt_complexity prompt lowerPrompt labs =
     (let wordCount = length (split_on CHR '' '' prompt);
          c0 = (if wordCount > 50 \<or> length labs > 2 then ''MEDIUM'' else ''LOW'')
      in if wordCount > 100 \<or> str_includes lowerPrompt ''integration''
            \<or> str_includes lowerPrompt ''architecture''
         then ''HIGH'' else c0)"

definition analyzePrompt :: "string \<Rightarrow> prompt_analysis" where
  "analyzePrompt prompt =
     (let lowerPrompt = toLowerCase prompt;
          labs = filter (str_includes lowerPrompt) techKeywords
      in \<lparr> title = prompt_title prompt,
           description = prompt,
           category = fst (prompt_category lowerPrompt),
           priority = prompt_urgency lowerPrompt (snd (prompt_category lowerPrompt)),
           labels = labs,
           complexity = prompt_complexity prompt lowerPrompt labs,
           state = ''Todo'' \<rparr>)"

subsection \<open>\<open>PlaneTicketCreator.analyzeTicket\<close> (plane-ticket-creator.js)\<close>

record plane_ticket_creator =
  creator_apiUrl :: string
  creator_apiKey :: string
  creator_workspace :: string
  creator_headers :: "(string \<times> string) list"

definition techTags :: "string list" where
  "techTags = [''api'', ''database'', ''frontend'', ''backend'', ''ui'', ''security'',
     ''performance'']"

definition ticket_category :: "string \<Rightarrow> string \<times> string" where
  "ticket_category lowerDesc =
     (if str_includes lowerDesc ''bug'' \<or> str_includes lowerDesc ''error'' \<or> str_includes lowerDesc ''fix''
      then (''Bug'', ''High'')
      else if str_includes lowerDesc ''feature'' \<or> str_includes lowerDesc ''add''
              \<or> str_includes lowerDesc ''implement''
      then (''Feature'', ''Medium'')
      else if str_includes lowerDesc ''improve'' \<or> str_includes lowerDesc ''optimize''
      then (''Enhancement'', ''Low'')
      else (''Task'', ''Medium''))"

definition ticket_priority :: "string \<Rightarrow> string \<Rightarrow> string" where
  "ticket_priority lowerDesc priority0 =
     (if str_includes lowerDesc ''urgent'' \<or> str_includes lowerDesc ''critical''
      then ''Urgent'' else priority0)"

definition ticket_complexity :: "string \<Rightarrow> string" where
  "ticket_complexity desc =
     (let wordCount = length (split_on CHR '' '' desc)
      in if wordCount > 50 then ''High'' else if wordCount > 20 then ''Medium'' else ''Low'')"

definition analyzeTicket :: "plane_ticket_creator \<Rightarrow> string \<Rightarrow> ticket_analysis" where
  "analyzeTicket this desc =
     (let lowerDesc = toLowerCase desc
      in \<lparr> title = substring0 80 (trim (hd (split_on CHR ''.'' desc))),
           description = desc,
           category = fst (ticket_category lowerDesc),
           priority = ticket_priority lowerDesc (snd (ticket_category lowerDesc)),
           labels = filter (str_includes lowerDesc) techTags,
           complexity = ticket_complexity desc,
           workspace = creator_workspace this \<rparr>)"

section \<open>JavaScript values, errors and effects\<close>

text \<open>
  A value is \<open>undefined\<close> or a JSON value. Numbers are the integers; an object is the list
  of its own properties in insertion order, each key listed once.
\<close>

datatype jsval =
    JUndefined
  | JNull
  | JBool bool
  | JNum int
  | JStr string
  | JArr "jsval list"
  | JObj "(string \<times> jsval) list"

datatype js_error = Error string | TypeError string | SyntaxError string

fun message :: "js_error \<Rightarrow> string" where
  "message (Error m) = m"
| "message (TypeError m) = m"
| "message (SyntaxError m) = m"

text \<open>How a call completes: it returns a value or throws.\<close>

datatype 'a completion = Return 'a | Throw js_error

fun truthy :: "jsval \<Rightarrow> bool" where
  "truthy JUndefined = False"
| "truthy JNull = False"
| "truthy (JBool b) = b"
| "truthy (JNum n) = (n \<noteq> 0)"
| "truthy (JStr s) = (s \<noteq> [])"
| "truthy (JArr xs) = True"
| "truthy (JObj kvs) = True"

text \<open>
  \<open>v.k\<close> for the property names the sources read (\<open>id\<close>, \<open>name\<close>, \<open>description\<close>, \<open>errors\<close>,
  \<open>data\<close>, \<open>node\<close>, ...): none of them is a built-in property of a string, a number, a
  boolean or an array, so only an object can hold one; reading a property of \<open>undefined\<close>
  or \<open>null\<close> throws a TypeError (the message is V8's).
\<close>

fun get_prop :: "jsval \<Rightarrow> string \<Rightarrow> jsval completion" where
  "get_prop JUndefined k =
     Throw (TypeError (''Cannot read properties of undefined (reading '' @ [CHR 0x27] @ k @ [CHR 0x27] @ '')''))"
| "get_prop JNull k =
     Throw (TypeError (''Cannot read properties of null (reading '' @ [CHR 0x27] @ k @ [CHR 0x27] @ '')''))"
| "get_prop (JObj kvs) k = Return (case map_of kvs k of None \<Rightarrow> JUndefined | Some v \<Rightarrow> v)"
| "get_prop v k = Return JUndefined"

text \<open>The decimal digits of a number, as a template literal writes an integer.\<close>

definition digit_char :: "nat \<Rightarrow> char" where
  "digit_char d = char_of (of_char CHR ''0'' + d)"

fun decimal :: "nat \<Rightarrow> string" where
  "decimal n = (if 10 \<le> n then decimal (n div 10) @ [digit_char (n mod 10)] else [digit_char n])"

declare decimal.simps [simp del]

definition number_to_string :: "int \<Rightarrow> string" where
  "number_to_string i = (if 0 \<le> i then decimal (nat i) else CHR ''-'' # decimal (nat (- i)))"

fun join :: "string \<Rightarrow> string list \<Rightarrow> string" where
  "join sep [] = []"
| "join sep [x] = x"
| "join sep (x # y # zs) = x @ sep @ join sep (y # zs)"

text \<open>
  The string a template literal \<open>`${v}`\<close> inserts for a value. For an object it is
  \<open>[object Object]\<close>. An object with an own property \<open>toString\<close> (no function, in JSON)
  makes the conversion throw a TypeError instead; such objects are not modelled. The
  values the sources convert are event types, actions, names and ids, strings in the
  data they are written for.
\<close>

fun to_string :: "jsval \<Rightarrow> string" where
  "to_string JUndefined = ''undefined''"
| "to_string JNull = ''null''"
| "to_string (JBool b) = (if b then ''true'' else ''false'')"
| "to_string (JNum n) = number_to_string n"
| "to_string (JStr s) = s"
| "to_string (JArr xs) =
     join '','' (map (\<lambda>x. if x = JUndefined \<or> x = JNull then [] else to_string x) xs)"
| "to_string (JObj kvs) = ''[object Object]''"

text \<open>
  \<open>JSON.stringify(v)\<close>: \<open>None\<close> is the result \<open>undefined\<close>. In an array \<open>undefined\<close> is
  written \<open>null\<close>, in an object a property whose value is \<open>undefined\<close> is left out.
\<close>

definition hex_digit :: "nat \<Rightarrow> char" where
  "hex_digit d = (if d < 10 then char_of (48 + d) else char_of (87 + d))"

definition json_escape :: "char \<Rightarrow> string" where
  "json_escape c =
     (let n = (of_char c :: nat) in
      if n = 0x22 then [CHR 0x5C, CHR 0x22]
      else if n = 0x5C then [CHR 0x5C, CHR 0x5C]
      else if n = 8 then [CHR 0x5C, CHR ''b'']
      else if n = 9 then [CHR 0x5C, CHR ''t'']
      else if n = 10 then [CHR 0x5C, CHR ''n'']
      else if n = 12 then [CHR 0x5C, CHR ''f'']
      else if n = 13 then [CHR 0x5C, CHR ''r'']
      else if n < 32 then [CHR 0x5C, CHR ''u'', CHR ''0'', CHR ''0'', hex_digit (n div 16), hex_digit (n mod 16)]
      else [c])"

definition json_quote :: "string \<Rightarrow> string" where
  "json_quote s = [CHR 0x22] @ concat (map json_escape s) @ [CHR 0x22]"

fun json_text :: "jsval \<Rightarrow> string" where
  "json_text JUndefined = ''null''"
| "json_text JNull = ''null''"
| "json_text (JBool b) = (if b then ''true'' else ''false'')"
| "json_text (JNum n) = number_to_string n"
| "json_text (JStr s) = json_quote s"
| "json_text (JArr xs) = ''['' @ join '','' (map json_text xs) @ '']''"
| "json_text (JObj kvs) =
     ''{'' @ join '',''
        (map (\<lambda>kv. json_quote (fst kv) @ '':'' @ json_text (snd kv))
           (filter (\<lambda>kv. snd kv \<noteq> JUndefined) kvs)) @ ''}''"

definition JSON_stringify :: "jsval \<Rightarrow> string option" where
  "JSON_stringify v = (if v = JUndefined then None else Some (json_text v))"

subsection \<open>The network and the timer\<close>

text \<open>
  The only effects the model records are the calls of \<open>fetch\<close> and the waits on
  \<open>setTimeout\<close>, in a history of events; console output is not part of it. The remote
  side is any function from the history so far and a request to the way \<open>fetch\<close>
  completes: with a response, or with the error of a failed connection. A response
  carries its body as text and, when the text parses as JSON, the parsed value.
\<close>

record fetch_init =
  init_method :: "string option"
  init_headers :: "(string \<times> string) list"
  init_body :: "string option"

datatype event = Fetch string fetch_init | Timeout nat

record response =
  resp_status :: nat
  resp_statusText :: string
  resp_contentType :: "string option"
  resp_text :: string
  resp_json :: "jsval option"

type_synonym remote = "event list \<Rightarrow> string \<Rightarrow> fetch_init \<Rightarrow> response completion"

definition fetch :: "remote \<Rightarrow> string \<Rightarrow> fetch_init \<Rightarrow> event list
    \<Rightarrow> response completion \<times> event list" where
  "fetch remote url init h = (remote h url init, h @ [Fetch url init])"

definition setTimeout :: "nat \<Rightarrow> event list \<Rightarrow> event list" where
  "setTimeout ms h = h @ [Timeout ms]"

definition resp_ok :: "response \<Rightarrow> bool" where
  "resp_ok r = (200 \<le> resp_status r \<and> resp_status r \<le> 299)"

text \<open>\<open>response.json()\<close> throws a SyntaxError on a body that is not JSON.\<close>

definition response_json :: "response \<Rightarrow> jsval completion" where
  "response_json r =
     (case resp_json r of
        None \<Rightarrow> Throw (SyntaxError ''Unexpected token in JSON'')
      | Some v \<Rightarrow> Return v)"

section \<open>\<open>PlaneAgent\<close> (plane-agent.js)\<close>

record plane_agent =
  apiUrl :: string
  apiKey :: string
  headers :: "(string \<times> string) list"

text \<open>The constructor removes one trailing slash of the URL.\<close>

definition new_PlaneAgent :: "string \<Rightarrow> string \<Rightarrow> plane_agent" where
  "new_PlaneAgent url key =
     \<lparr> apiUrl = (if url \<noteq> [] \<and> last url = CHR ''/'' then butlast url else url),
       apiKey = key,
       headers = [(''Authorization'', ''Bearer '' @ key), (''X-API-Key'', key),
                  (''Content-Type'', ''application/json'')] \<rparr>"

record request_options =
  opt_method :: "string option"
  opt_body :: "string option"

definition no_options :: request_options where
  "no_options = \<lparr> opt_method = None, opt_body = None \<rparr>"

definition make_init :: "(string \<times> string) list \<Rightarrow> request_options \<Rightarrow> fetch_init" where
  "make_init hs options =
     \<lparr> init_method = opt_method options, init_headers = hs, init_body = opt_body options \<rparr>"

subsection \<open>\<open>request\<close>\<close>

text \<open>
  What the body of the \<open>try\<close> block does for one path: \<open>continue\<close> on a 404, \<open>return\<close> the
  parsed JSON, or throw (a failed \<open>fetch\<close>, a response that is not ok, a body that is not
  JSON).
\<close>

datatype attempt = NextPath | Returned jsval | Failed js_error

definition request_attempt :: "remote \<Rightarrow> plane_agent \<Rightarrow> string \<Rightarrow> request_options
    \<Rightarrow> string \<Rightarrow> event list \<Rightarrow> attempt \<times> event list" where
  "request_attempt remote this endpoint options apiPath h =
     (case fetch remote (apiUrl this @ apiPath @ endpoint) (make_init (headers this) options) h of
        (Throw e, h1) \<Rightarrow> (Failed e, h1)
      | (Return r, h1) \<Rightarrow>
          if resp_status r = 404 then (NextPath, h1)
          else if \<not> resp_ok r then
            (Failed (Error (''API error '' @ decimal (resp_status r) @ '': '' @ resp_text r)), h1)
          else
            (case resp_contentType r of
               None \<Rightarrow> (Failed (Error ''Expected JSON response but got HTML/text''), h1)
             | Some ct \<Rightarrow>
                 if ct \<noteq> [] \<and> str_includes ct ''application/json'' then
                   (case response_json r of
                      Throw e \<Rightarrow> (Failed e, h1)
                    | Return v \<Rightarrow> (Returned v, h1))
                 else (Failed (Error ''Expected JSON response but got HTML/text''), h1)))"

text \<open>
  The loop over the paths. The \<open>catch\<close> block rethrows only when the path equals the last
  one of the list; otherwise the loop goes on. A loop that runs out of paths ends the
  function without a \<open>return\<close>: the call returns \<open>undefined\<close>.
\<close>

fun request_loop :: "remote \<Rightarrow> plane_agent \<Rightarrow> string list \<Rightarrow> string \<Rightarrow> request_options
    \<Rightarrow> string list \<Rightarrow> event list \<Rightarrow> jsval completion \<times> event list" where
  "request_loop remote this apiPaths endpoint options [] h = (Return JUndefined, h)"
| "request_loop remote this apiPaths endpoint options (apiPath # rest) h =
     (case request_attempt remote this endpoint options apiPath h of
        (NextPath, h1) \<Rightarrow> request_loop remote this apiPaths endpoint options rest h1
      | (Returned v, h1) \<Rightarrow> (Return v, h1)
      | (Failed e, h1) \<Rightarrow>
          if apiPath = last apiPaths then (Throw e, h1)
          else request_loop remote this apiPaths endpoint options rest h1)"

definition agent_apiPaths :: "string list" where
  "agent_apiPaths = [''/api/v1'', ''/api'', ''/api/public'', []]"

definition request :: "remote \<Rightarrow> plane_agent \<Rightarrow> string \<Rightarrow> request_options
    \<Rightarrow> event list \<Rightarrow> jsval completion \<times> event list" where
  "request remote this endpoint options h =
     request_loop remote this agent_apiPaths endpoint options agent_apiPaths h"

subsection \<open>\<open>createIssue\<close>, \<open>addComment\<close>\<close>

definition createIssue :: "remote \<Rightarrow> plane_agent \<Rightarrow> string \<Rightarrow> string \<Rightarrow> jsval
    \<Rightarrow> event list \<Rightarrow> jsval completion \<times> event list" where
  "createIssue remote this workspaceSlug projectId issueData h =
     request remote this
       (''/workspaces/'' @ workspaceSlug @ ''/projects/'' @ projectId @ ''/issues/'')
       \<lparr> opt_method = Some ''POST'', opt_body = JSON_stringify issueData \<rparr> h"

definition addComment :: "remote \<Rightarrow> plane_agent \<Rightarrow> string \<Rightarrow> string \<Rightarrow> jsval \<Rightarrow> string
    \<Rightarrow> event list \<Rightarrow> jsval completion \<times> event list" where
  "addComment remote this workspaceSlug projectId issueId comment h =
     request remote this
       (''/workspaces/'' @ workspaceSlug @ ''/projects/'' @ projectId @ ''/issues/''
          @ to_string issueId @ ''/comments/'')
       \<lparr> opt_method = Some ''POST'',
         opt_body = JSON_stringify (JObj
           [(''comment_html'', JStr (''<p>'' @ comment @ ''</p>'')),
            (''comment_json'', JObj [(''content'', JStr comment)])]) \<rparr> h"

subsection \<open>\<open>createAITicket\<close>\<close>

text \<open>The comment's text; its first character, a robot emoji, is written in UTF-8.\<close>

definition aiComment :: "prompt_analysis \<Rightarrow> string" where
  "aiComment a =
     [CHR 0xF0, CHR 0x9F, CHR 0xA4, CHR 0x96] @ '' **AI Analysis:**'' @ [CHR 0x0A, CHR 0x0A]
     @ ''**Category:** '' @ category a @ [CHR 0x0A]
     @ ''**Estimated Complexity:** '' @ complexity a @ [CHR 0x0A]
     @ ''**Suggested Priority:** '' @ priority a @ [CHR 0x0A]
     @ ''**Auto-generated Tags:** '' @ join '', '' (labels a) @ [CHR 0x0A, CHR 0x0A]
     @ ''*This ticket was created automatically by Plane Agent.*''"

definition issueData_of :: "prompt_analysis \<Rightarrow> jsval" where
  "issueData_of a =
     JObj [(''name'', JStr (title a)), (''description'', JStr (description a)),
           (''priority'', JStr (priority a)), (''state'', JStr (state a)),
           (''labels'', JArr (map JStr (labels a)))]"

text \<open>
  Both calls stand in one \<open>try\<close> block whose \<open>catch\<close> rethrows: an error of
  \<open>createIssue\<close> or of \<open>addComment\<close> is the error of \<open>createAITicket\<close>.
\<close>

definition createAITicket :: "remote \<Rightarrow> plane_agent \<Rightarrow> string \<Rightarrow> string \<Rightarrow> string
    \<Rightarrow> event list \<Rightarrow> jsval completion \<times> event list" where
  "createAITicket remote this workspaceSlug projectId prompt h =
     (let a = analyzePrompt prompt in
      case createIssue remote this workspaceSlug projectId (issueData_of a) h of
        (Throw e, h1) \<Rightarrow> (Throw e, h1)
      | (Return issue, h1) \<Rightarrow>
          if \<not> truthy issue then (Return issue, h1)
          else
            (case get_prop issue ''id'' of
               Throw e \<Rightarrow> (Throw e, h1)
             | Return issueId \<Rightarrow>
                 if \<not> truthy issueId then (Return issue, h1)
                 else
                   (case addComment remote this workspaceSlug projectId issueId (aiComment a) h1 of
                      (Throw e, h2) \<Rightarrow> (Throw e, h2)
                    | (Return c, h2) \<Rightarrow> (Return issue, h2))))"

subsection \<open>\<open>createTicketsFromList\<close>\<close>

text \<open>An entry of the results: \<open>{ success, ticket, prompt }\<close> or \<open>{ success, error, prompt }\<close>.\<close>

record batch_entry =
  entry_success :: bool
  entry_ticket :: "jsval option"
  entry_error :: "string option"
  entry_prompt :: string

text \<open>
  The \<open>for\<close> loop over the indices, with the array of results it pushes to. The wait of
  1000 ms follows the push inside the \<open>try\<close> block; the \<open>catch\<close> block only pushes.
\<close>

function batch_loop :: "remote \<Rightarrow> plane_agent \<Rightarrow> string \<Rightarrow> string \<Rightarrow> string list \<Rightarrow> nat
    \<Rightarrow> batch_entry list \<Rightarrow> event list \<Rightarrow> batch_entry list \<times> event list" where
  "batch_loop remote this workspaceSlug projectId ticketList i results h =
     (if i < length ticketList then
        (case createAITicket remote this workspaceSlug projectId (ticketList ! i) h of
           (Return t, h1) \<Rightarrow>
             batch_loop remote this workspaceSlug projectId ticketList (i + 1)
               (results @ [\<lparr> entry_success = True, entry_ticket = Some t, entry_error = None,
                              entry_prompt = ticketList ! i \<rparr>])
               (setTimeout 1000 h1)
         | (Throw e, h1) \<Rightarrow>
             batch_loop remote this workspaceSlug projectId ticketList (i + 1)
               (results @ [\<lparr> entry_success = False, entry_ticket = None,
                              entry_error = Some (message e), entry_prompt = ticketList ! i \<rparr>])
               h1)
      else (results, h))"
  by pat_completeness auto
termination
  by (relation "measure (\<lambda>(remote, this, w, p, ticketList, i, results, h). length ticketList - i)")
     auto

declare batch_loop.simps [simp del]

definition createTicketsFromList :: "remote \<Rightarrow> plane_agent \<Rightarrow> string \<Rightarrow> string \<Rightarrow> string list
    \<Rightarrow> event list \<Rightarrow> batch_entry list \<times> event list" where
  "createTicketsFromList remote this workspaceSlug projectId ticketList h =
     batch_loop remote this workspaceSlug projectId ticketList 0 [] h"

section \<open>\<open>PlaneTicketCreator.apiRequest\<close> (plane-ticket-creator.js)\<close>

text \<open>
  The same probe over three paths. Here a 2xx response that is not JSON falls out of the
  \<open>try\<close> block and the loop goes on, and the \<open>catch\<close> block returns \<open>null\<close> on the last path
  instead of rethrowing.
\<close>

datatype api_attempt = ApiNext | ApiReturned jsval | ApiFailed js_error

definition apiRequest_attempt :: "remote \<Rightarrow> plane_ticket_creator \<Rightarrow> string \<Rightarrow> request_options
    \<Rightarrow> string \<Rightarrow> event list \<Rightarrow> api_attempt \<times> event list" where
  "apiRequest_attempt remote this endpoint options apiPath h =
     (case fetch remote (creator_apiUrl this @ apiPath @ endpoint)
             (make_init (creator_headers this) options) h of
        (Throw e, h1) \<Rightarrow> (ApiFailed e, h1)
      | (Return r, h1) \<Rightarrow>
          if resp_status r = 404 then (ApiNext, h1)
          else if \<not> resp_ok r then
            (ApiFailed (Error (''API error '' @ decimal (resp_status r) @ '': '' @ resp_text r)), h1)
          else
            (case resp_contentType r of
               None \<Rightarrow> (ApiNext, h1)
             | Some ct \<Rightarrow>
                 if ct \<noteq> [] \<and> str_includes ct ''application/json'' then
                   (case response_json r of
                      Throw e \<Rightarrow> (ApiFailed e, h1)
                    | Return v \<Rightarrow> (ApiReturned v, h1))
                 else (ApiNext, h1)))"

fun apiRequest_loop :: "remote \<Rightarrow> plane_ticket_creator \<Rightarrow> string list \<Rightarrow> string
    \<Rightarrow> request_options \<Rightarrow> string list \<Rightarrow> event list \<Rightarrow> jsval completion \<times> event list" where
  "apiRequest_loop remote this apiPaths endpoint options [] h = (Return JUndefined, h)"
| "apiRequest_loop remote this apiPaths endpoint options (apiPath # rest) h =
     (case apiRequest_attempt remote this endpoint options apiPath h of
        (ApiNext, h1) \<Rightarrow> apiRequest_loop remote this apiPaths endpoint options rest h1
      | (ApiReturned v, h1) \<Rightarrow> (Return v, h1)
      | (ApiFailed e, h1) \<Rightarrow>
          if apiPath = last apiPaths then (Return JNull, h1)
          else apiRequest_loop remote this apiPaths endpoint options rest h1)"

definition creator_apiPaths :: "string list" where
  "creator_apiPaths = [''/api/v1'', ''/api'', ''/api/public'']"

definition apiRequest :: "remote \<Rightarrow> plane_ticket_creator \<Rightarrow> string \<Rightarrow> request_options
    \<Rightarrow> event list \<Rightarrow> jsval completion \<times> event list" where
  "apiRequest remote this endpoint options h =
     apiRequest_loop remote this creator_apiPaths endpoint options creator_apiPaths h"

section \<open>The webhook listener (webhook-listener.js)\<close>

















section \<open>\<open>RailwayAgent\<close> (railway-agent.js)\<close>


record railway_agent =
  token :: string
  railway_headers :: "(string \<times> string) list"









subsection \<open>\<open>executeTicket\<close>\<close>





section \<open>Notions of the statements\<close>

text \<open>What a history shows once the request's options are dropped.\<close>

fun event_outline :: "event \<Rightarrow> string + nat" where
  "event_outline (Fetch url init) = Inl url"
| "event_outline (Timeout ms) = Inr ms"

text \<open>
  The batch as the specification words it, by recursion on the prompts: submit the
  prompt, record a success (and wait) or a failure, go on with the rest.
\<close>

fun submit_each :: "remote \<Rightarrow> plane_agent \<Rightarrow> string \<Rightarrow> string \<Rightarrow> string list \<Rightarrow> event list
    \<Rightarrow> batch_entry list \<times> event list" where
  "submit_each remote this workspaceSlug projectId [] h = ([], h)"
| "submit_each remote this workspaceSlug projectId (p # ps) h =
     (case createAITicket remote this workspaceSlug projectId p h of
        (Return t, h1) \<Rightarrow>
          (case submit_each remote this workspaceSlug projectId ps (setTimeout 1000 h1) of
             (rs, h2) \<Rightarrow>
               (\<lparr> entry_success = True, entry_ticket = Some t, entry_error = None,
                   entry_prompt = p \<rparr> # rs, h2))
      | (Throw e, h1) \<Rightarrow>
          (case submit_each remote this workspaceSlug projectId ps h1 of
             (rs, h2) \<Rightarrow>
               (\<lparr> entry_success = False, entry_ticket = None, entry_error = Some (message e),
                   entry_prompt = p \<rparr> # rs, h2)))"

text \<open>A URL that answers 404 whatever has happened before.\<close>

definition answers_404 :: "remote \<Rightarrow> string \<Rightarrow> fetch_init \<Rightarrow> bool" where
  "answers_404 remote url init = (\<forall>h. \<exists>r. remote h url init = Return r \<and> resp_status r = 404)"

text \<open>
  A body parsed by \<open>response.json()\<close> is a JSON value, never \<open>undefined\<close>: the condition
  holds of every real remote side.
\<close>

definition json_remote :: "remote \<Rightarrow> bool" where
  "json_remote remote =
     (\<forall>h url init r. remote h url init = Return r \<longrightarrow> resp_json r \<noteq> Some JUndefined)"


text \<open>
  The probe runs out of paths when every attempt lets the loop go on: the path answers
  404 (for \<open>apiRequest\<close> also: 2xx without JSON), or the attempt fails on a path that is
  not the last one of the list. The attempt at position \<open>k\<close> is made after the fetches of
  the \<open>k\<close> paths before it.
\<close>

fun goes_on :: "attempt \<Rightarrow> bool \<Rightarrow> bool" where
  "goes_on NextPath is_last = True"
| "goes_on (Returned v) is_last = False"
| "goes_on (Failed e) is_last = (\<not> is_last)"

fun api_goes_on :: "api_attempt \<Rightarrow> bool \<Rightarrow> bool" where
  "api_goes_on ApiNext is_last = True"
| "api_goes_on (ApiReturned v) is_last = False"
| "api_goes_on (ApiFailed e) is_last = (\<not> is_last)"

definition probe_event :: "plane_agent \<Rightarrow> string \<Rightarrow> request_options \<Rightarrow> string \<Rightarrow> event" where
  "probe_event this ep opts p = Fetch (apiUrl this @ p @ ep) (make_init (headers this) opts)"

definition api_probe_event :: "plane_ticket_creator \<Rightarrow> string \<Rightarrow> request_options \<Rightarrow> string
    \<Rightarrow> event" where
  "api_probe_event this ep opts p =
     Fetch (creator_apiUrl this @ p @ ep) (make_init (creator_headers this) opts)"

definition probe_exhausted :: "remote \<Rightarrow> plane_agent \<Rightarrow> string list \<Rightarrow> string \<Rightarrow> request_options
    \<Rightarrow> string list \<Rightarrow> event list \<Rightarrow> bool" where
  "probe_exhausted remote this apiPaths ep opts ps h =
     list_all
       (\<lambda>k. goes_on
              (fst (request_attempt remote this ep opts (ps ! k)
                      (h @ map (probe_event this ep opts) (take k ps))))
              (ps ! k = last apiPaths))
       [0..<length ps]"

definition api_probe_exhausted :: "remote \<Rightarrow> plane_ticket_creator \<Rightarrow> string list \<Rightarrow> string
    \<Rightarrow> request_options \<Rightarrow> string list \<Rightarrow> event list \<Rightarrow> bool" where
  "api_probe_exhausted remote this apiPaths ep opts ps h =
     list_all
       (\<lambda>k. api_goes_on
              (fst (apiRequest_attempt remote this ep opts (ps ! k)
                      (h @ map (api_probe_event this ep opts) (take k ps))))
              (ps ! k = last apiPaths))
       [0..<length ps]"

section \<open>Inputs of the scenarios\<close>

definition scenario_text :: string where
  "scenario_text =
     ''Fix urgent authentication bug in login flow. Needs backend and security review.''"

definition demo_creator :: plane_ticket_creator where
  "demo_creator =
     \<lparr> creator_apiUrl = ''https://plane.example'',
       creator_apiKey = ''key'',
       creator_workspace = ''indigo'',
       creator_headers = [(''Authorization'', ''Bearer key''), (''X-API-Key'', ''key''),
                          (''Content-Type'', ''application/json'')] \<rparr>"

definition demo_agent :: plane_agent where
  "demo_agent = new_PlaneAgent ''https://plane.example/'' ''key''"

definition not_found :: response where
  "not_found =
     \<lparr> resp_status = 404, resp_statusText = ''Not Found'', resp_contentType = Some ''text/html'',
       resp_text = ''not found'', resp_json = None \<rparr>"

definition forbidden :: response where
  "forbidden =
     \<lparr> resp_status = 403, resp_statusText = ''Forbidden'', resp_contentType = Some ''text/plain'',
       resp_text = ''denied'', resp_json = None \<rparr>"

definition server_error :: response where
  "server_error =
     \<lparr> resp_status = 500, resp_statusText = ''Internal Server Error'',
       resp_contentType = Some ''text/plain'', resp_text = ''unavailable'', resp_json = None \<rparr>"

definition ok_json :: "jsval \<Rightarrow> response" where
  "ok_json v =
     \<lparr> resp_status = 200, resp_statusText = ''OK'', resp_contentType = Some ''application/json'',
       resp_text = json_text v, resp_json = Some v \<rparr>"

text \<open>A remote side that rejects every request.\<close>

definition remote_forbidden :: remote where
  "remote_forbidden h url init = Return forbidden"

text \<open>A remote side on which no path exists.\<close>

definition remote_404 :: remote where
  "remote_404 h url init = Return not_found"

text \<open>
  Candidates \<open>[A, B]\<close> of the specification's scenario: the first path of the list is
  forbidden, the second one answers with JSON, nothing else exists.
\<close>

definition remote_403_then_ok :: remote where
  "remote_403_then_ok h url init =
     (if url = ''https://plane.example/api/v1/workspaces/'' then Return forbidden
      else if url = ''https://plane.example/api/workspaces/''
      then Return (ok_json (JObj [(''id'', JStr ''x'')]))
      else Return not_found)"

text \<open>A remote side that creates issues and rejects every comment.\<close>

definition remote_no_comments :: remote where
  "remote_no_comments h url init =
     (if url = ''https://plane.example/api/v1/workspaces/indigo/projects/p1/issues/''
      then Return (ok_json (JObj [(''id'', JStr ''42'')]))
      else Return server_error)"

text \<open>
  A remote side that cannot be reached for a request whose body mentions \<open>boom\<close> and
  creates an issue (with no \<open>id\<close> in the answer) for every other request.
\<close>

definition remote_boom :: remote where
  "remote_boom h url init =
     (case init_body init of
        None \<Rightarrow> Return not_found
      | Some b \<Rightarrow>
          if str_includes b ''boom'' then Throw (TypeError ''fetch failed'')
          else Return (ok_json (JObj [(''name'', JStr ''created'')])))"

text \<open>A remote side that accepts every request and answers with an issue.\<close>

definition remote_accepts :: remote where
  "remote_accepts h url init = Return (ok_json (JObj [(''id'', JStr ''42'')]))"







text \<open>
  A remote side that rejects every request but the one to the last path of
  \<open>PlaneAgent\<close>, the bare \<open>/workspaces/\<close>, which does not exist.
\<close>

definition remote_rejects_then_404 :: remote where
  "remote_rejects_then_404 h url init =
     (if url = ''https://plane.example/workspaces/'' then Return not_found
      else Return forbidden)"

text \<open>A remote side that answers every request with a page of HTML.\<close>

definition html_page :: response where
  "html_page =
     \<lparr> resp_status = 200, resp_statusText = ''OK'', resp_contentType = Some ''text/html'',
       resp_text = ''<html></html>'', resp_json = None \<rparr>"

definition remote_html :: remote where
  "remote_html h url init = Return html_page"

section \<open>Facts about the string functions\<close>

lemma str_includes_sublist: "str_includes s kw \<longleftrightarrow> sublist kw s"
  by (induction s) (auto simp: sublist_Cons_right)

lemma contains_ci_iff: "contains_ci txt kw \<longleftrightarrow> str_includes (toLowerCase txt) kw"
  unfolding str_includes_sublist contains_ci_def sublist_def toLowerCase_def
  by (metis append_eq_map_conv map_append)

lemma split_on_nonempty: "split_on sep s \<noteq> []"
  by (induction s) (auto split: list.splits)

lemma length_split_on: "length (split_on sep s) = Suc (length (filter (\<lambda>c. c = sep) s))"
  by (induction s) (auto split: list.splits)

section \<open>The classifiers\<close>

text \<open>
  C7. For the text "Fix urgent authentication bug in login flow. Needs backend and
  security review." both classifiers give the category Bug, the priority Urgent, the
  labels backend and security and no other, and the title "Fix urgent authentication
  bug in login flow". \<open>analyzeTicket\<close> writes the category and the priority \<open>Bug\<close> and
  \<open>Urgent\<close>, \<open>analyzePrompt\<close> writes them \<open>BUG\<close> and \<open>urgent\<close>.
\<close>

theorem scenario_classification:
  "category (analyzeTicket this scenario_text) = ''Bug''
   \<and> priority (analyzeTicket this scenario_text) = ''Urgent''
   \<and> labels (analyzeTicket this scenario_text) = [''backend'', ''security'']
   \<and> set (labels (analyzeTicket this scenario_text)) = {''backend'', ''security''}
   \<and> title (analyzeTicket this scenario_text) = ''Fix urgent authentication bug in login flow''
   \<and> category (analyzePrompt scenario_text) = ''BUG''
   \<and> priority (analyzePrompt scenario_text) = ''urgent''
   \<and> labels (analyzePrompt scenario_text) = [''backend'', ''security'']
   \<and> set (labels (analyzePrompt scenario_text)) = {''backend'', ''security''}
   \<and> title (analyzePrompt scenario_text) = ''Fix urgent authentication bug in login flow''"
proof -
  have t_lab: "labels (analyzeTicket this scenario_text) = [''backend'', ''security'']"
    unfolding scenario_text_def by code_simp
  have p_lab: "labels (analyzePrompt scenario_text) = [''backend'', ''security'']"
    unfolding scenario_text_def by code_simp
  have t_cat: "category (analyzeTicket this scenario_text) = ''Bug''"
    unfolding scenario_text_def by code_simp
  have t_pri: "priority (analyzeTicket this scenario_text) = ''Urgent''"
    unfolding scenario_text_def by code_simp
  have t_tit: "title (analyzeTicket this scenario_text)
      = ''Fix urgent authentication bug in login flow''"
    unfolding scenario_text_def by code_simp
  have p_cat: "category (analyzePrompt scenario_text) = ''BUG''"
    unfolding scenario_text_def by code_simp
  have p_pri: "priority (analyzePrompt scenario_text) = ''urgent''"
    unfolding scenario_text_def by code_simp
  have p_tit: "title (analyzePrompt scenario_text)
      = ''Fix urgent authentication bug in login flow''"
    unfolding scenario_text_def by code_simp
  show ?thesis
    unfolding t_lab p_lab t_cat t_pri t_tit p_cat p_pri p_tit by simp
qed

text \<open>
  C2, as the specification states it, fails: "Critical outage, fix when possible" holds
  the urgency term "critical" and the low-priority phrase "when possible", and
  \<open>analyzePrompt\<close> gives it the priority urgent, not low.
\<close>

theorem low_priority_overrides_urgency_counterexample:
  "contains_ci ''Critical outage, fix when possible'' ''critical''
   \<and> contains_ci ''Critical outage, fix when possible'' ''when possible''
   \<and> priority (analyzePrompt ''Critical outage, fix when possible'') = ''urgent''
   \<and> priority (analyzePrompt ''Critical outage, fix when possible'') \<noteq> ''low''"
proof -
  have a: "str_includes (toLowerCase ''Critical outage, fix when possible'') ''critical''"
    by code_simp
  have b: "str_includes (toLowerCase ''Critical outage, fix when possible'') ''when possible''"
    by code_simp
  have c: "priority (analyzePrompt ''Critical outage, fix when possible'') = ''urgent''"
    by code_simp
  show ?thesis unfolding contains_ci_iff c using a b by simp
qed

text \<open>
  C2, amended. The low-priority check is the \<open>else if\<close> of the urgency check: a prompt
  that holds "urgent", "asap" or "critical" gets the priority urgent whatever else it
  holds, and "low priority" or "when possible" give the priority low only to a prompt
  with none of the urgency terms.
\<close>

theorem urgency_overrides_low_priority:
  "(contains_ci p ''urgent'' \<or> contains_ci p ''asap'' \<or> contains_ci p ''critical''
      \<longrightarrow> priority (analyzePrompt p) = ''urgent'')
   \<and> (\<not> (contains_ci p ''urgent'' \<or> contains_ci p ''asap'' \<or> contains_ci p ''critical'')
        \<and> (contains_ci p ''low priority'' \<or> contains_ci p ''when possible'')
      \<longrightarrow> priority (analyzePrompt p) = ''low'')"
  unfolding contains_ci_iff
  by (simp add: analyzePrompt_def prompt_urgency_def Let_def)

theorem urgency_overrides_low_priority_witness:
  "contains_ci ''Urgent: low priority cleanup'' ''urgent''
   \<and> contains_ci ''Urgent: low priority cleanup'' ''low priority''
   \<and> priority (analyzePrompt ''Urgent: low priority cleanup'') = ''urgent''
   \<and> \<not> (contains_ci ''Tidy the docs when possible'' ''urgent''
          \<or> contains_ci ''Tidy the docs when possible'' ''asap''
          \<or> contains_ci ''Tidy the docs when possible'' ''critical'')
   \<and> contains_ci ''Tidy the docs when possible'' ''when possible''
   \<and> priority (analyzePrompt ''Tidy the docs when possible'') = ''low''"
proof -
  have a: "str_includes (toLowerCase ''Urgent: low priority cleanup'') ''urgent''"
    by code_simp
  have b: "str_includes (toLowerCase ''Urgent: low priority cleanup'') ''low priority''"
    by code_simp
  have c: "\<not> str_includes (toLowerCase ''Tidy the docs when possible'') ''urgent''"
    by code_simp
  have d: "\<not> str_includes (toLowerCase ''Tidy the docs when possible'') ''asap''"
    by code_simp
  have e: "\<not> str_includes (toLowerCase ''Tidy the docs when possible'') ''critical''"
    by code_simp
  have f: "str_includes (toLowerCase ''Tidy the docs when possible'') ''when possible''"
    by code_simp
  show ?thesis
    using urgency_overrides_low_priority [of "''Urgent: low priority cleanup''"]
      urgency_overrides_low_priority [of "''Tidy the docs when possible''"]
      a b c d e f
    unfolding contains_ci_iff by blast
qed

text \<open>
  C8, as the specification states it, fails for \<open>analyzePrompt\<close>, whose Bug terms are
  "bug", "error" and "issue": "Fix mobile layout" holds "fix" and is a TASK.
\<close>

theorem fix_is_bug_counterexample:
  "contains_ci ''Fix mobile layout'' ''fix''
   \<and> category (analyzePrompt ''Fix mobile layout'') = ''TASK''
   \<and> category (analyzePrompt ''Fix mobile layout'') \<noteq> ''BUG''"
proof -
  have a: "str_includes (toLowerCase ''Fix mobile layout'') ''fix''" by code_simp
  have c: "category (analyzePrompt ''Fix mobile layout'') = ''TASK''" by code_simp
  show ?thesis unfolding contains_ci_iff c using a by simp
qed

text \<open>
  C8, amended. \<open>analyzeTicket\<close> gives the category Bug to every text that holds "bug",
  "error" or "fix" in any case of letters; \<open>analyzePrompt\<close> gives the category BUG to
  every text that holds "bug", "error" or "issue" in any case of letters.
\<close>

theorem bug_keywords_give_bug:
  "(contains_ci d ''bug'' \<or> contains_ci d ''error'' \<or> contains_ci d ''fix''
      \<longrightarrow> category (analyzeTicket this d) = ''Bug'')
   \<and> (contains_ci d ''bug'' \<or> contains_ci d ''error'' \<or> contains_ci d ''issue''
      \<longrightarrow> category (analyzePrompt d) = ''BUG'')"
  unfolding contains_ci_iff
  by (simp add: analyzeTicket_def ticket_category_def analyzePrompt_def prompt_category_def
      Let_def)

theorem bug_keywords_give_bug_witness:
  "contains_ci ''Fix mobile layout issues'' ''fix''
   \<and> category (analyzeTicket demo_creator ''Fix mobile layout issues'') = ''Bug''
   \<and> contains_ci ''Fix mobile layout issues'' ''issue''
   \<and> category (analyzePrompt ''Fix mobile layout issues'') = ''BUG''"
proof -
  have a: "str_includes (toLowerCase ''Fix mobile layout issues'') ''fix''" by code_simp
  have b: "str_includes (toLowerCase ''Fix mobile layout issues'') ''issue''" by code_simp
  show ?thesis
    using bug_keywords_give_bug [of "''Fix mobile layout issues''" demo_creator] a b
    unfolding contains_ci_iff by blast
qed

section \<open>The probe over the candidate paths\<close>

lemma demo_agent_simps:
  "apiUrl demo_agent = ''https://plane.example''"
  "headers demo_agent = [(''Authorization'', ''Bearer key''), (''X-API-Key'', ''key''),
                  (''Content-Type'', ''application/json'')]"
  by (simp_all add: demo_agent_def new_PlaneAgent_def)

lemma request_loop_all_404:
  assumes "list_all (\<lambda>p. answers_404 remote (apiUrl this @ p @ ep) (make_init (headers this) opts)) ps"
  shows "request_loop remote this paths ep opts ps h
         = (Return JUndefined,
            h @ map (\<lambda>p. Fetch (apiUrl this @ p @ ep) (make_init (headers this) opts)) ps)"
  using assms
proof (induction ps arbitrary: h)
  case Nil
  then show ?case by simp
next
  case (Cons p ps)
  from Cons.prems obtain r where
    r: "remote h (apiUrl this @ p @ ep) (make_init (headers this) opts) = Return r"
       "resp_status r = 404"
    unfolding answers_404_def by auto
  from Cons.prems have rest:
    "list_all (\<lambda>p. answers_404 remote (apiUrl this @ p @ ep) (make_init (headers this) opts)) ps"
    by simp
  have "request_attempt remote this ep opts p h
        = (NextPath, h @ [Fetch (apiUrl this @ p @ ep) (make_init (headers this) opts)])"
    using r by (simp add: request_attempt_def fetch_def)
  then show ?case
    by (simp add: Cons.IH [OF rest])
qed

lemma apiRequest_loop_all_404:
  assumes "list_all (\<lambda>p. answers_404 remote (creator_apiUrl this @ p @ ep)
                           (make_init (creator_headers this) opts)) ps"
  shows "apiRequest_loop remote this paths ep opts ps h
         = (Return JUndefined,
            h @ map (\<lambda>p. Fetch (creator_apiUrl this @ p @ ep)
                            (make_init (creator_headers this) opts)) ps)"
  using assms
proof (induction ps arbitrary: h)
  case Nil
  then show ?case by simp
next
  case (Cons p ps)
  from Cons.prems obtain r where
    r: "remote h (creator_apiUrl this @ p @ ep) (make_init (creator_headers this) opts) = Return r"
       "resp_status r = 404"
    unfolding answers_404_def by auto
  from Cons.prems have rest:
    "list_all (\<lambda>p. answers_404 remote (creator_apiUrl this @ p @ ep)
                      (make_init (creator_headers this) opts)) ps"
    by simp
  have "apiRequest_attempt remote this ep opts p h
        = (ApiNext, h @ [Fetch (creator_apiUrl this @ p @ ep)
                           (make_init (creator_headers this) opts)])"
    using r by (simp add: apiRequest_attempt_def fetch_def)
  then show ?case
    by (simp add: Cons.IH [OF rest])
qed

lemma answers_404_remote_404: "answers_404 remote_404 url init"
  by (simp add: answers_404_def remote_404_def not_found_def)

text \<open>
  C1, as the specification states it, fails. With the candidates of the scenario, the
  first path answers 403 and the second one answers with JSON: \<open>request\<close> does not fail, it
  goes on to the second path and returns its JSON.
\<close>

theorem rejected_before_last_path_counterexample:
  "remote_403_then_ok [] (apiUrl demo_agent @ ''/api/v1'' @ ''/workspaces/'')
       (make_init (headers demo_agent) no_options) = Return forbidden
   \<and> resp_status forbidden = 403
   \<and> fst (request remote_403_then_ok demo_agent ''/workspaces/'' no_options [])
       = Return (JObj [(''id'', JStr ''x'')])
   \<and> map event_outline (snd (request remote_403_then_ok demo_agent ''/workspaces/'' no_options []))
       = [Inl ''https://plane.example/api/v1/workspaces/'',
          Inl ''https://plane.example/api/workspaces/'']"
proof -
  have a: "remote_403_then_ok [] (apiUrl demo_agent @ ''/api/v1'' @ ''/workspaces/'')
       (make_init (headers demo_agent) no_options) = Return forbidden"
    by (simp add: demo_agent_simps remote_403_then_ok_def)
  have b: "resp_status forbidden = 403" by (simp add: forbidden_def)
  have c: "fst (request remote_403_then_ok demo_agent ''/workspaces/'' no_options [])
       = Return (JObj [(''id'', JStr ''x'')])"
    by code_simp
  have d: "map event_outline
             (snd (request remote_403_then_ok demo_agent ''/workspaces/'' no_options []))
       = [Inl ''https://plane.example/api/v1/workspaces/'',
          Inl ''https://plane.example/api/workspaces/'']"
    by code_simp
  show ?thesis using a b c d by simp
qed

text \<open>
  C1, amended. When the path probed answers with a status that is neither 2xx nor 404,
  the error \<open>API error <status>: <body>\<close> ends the call only if this path is the last
  one of the list: there \<open>PlaneAgent.request\<close> throws it and
  \<open>PlaneTicketCreator.apiRequest\<close> returns \<open>null\<close>. On every earlier path the error is
  caught and the probe goes on with the next path.
\<close>

theorem rejected_is_terminal_on_last_path_only:
  "(remote h (apiUrl agent @ p @ ep) (make_init (headers agent) opts) = Return r
      \<and> resp_status r \<noteq> 404 \<and> \<not> resp_ok r
    \<longrightarrow> request_loop remote agent paths ep opts (p # rest) h
        = (if p = last paths
           then (Throw (Error (''API error '' @ decimal (resp_status r) @ '': ''
                               @ resp_text r)),
                 h @ [Fetch (apiUrl agent @ p @ ep) (make_init (headers agent) opts)])
           else request_loop remote agent paths ep opts rest
                  (h @ [Fetch (apiUrl agent @ p @ ep) (make_init (headers agent) opts)])))
   \<and> (remote h (creator_apiUrl creator @ p @ ep) (make_init (creator_headers creator) opts)
        = Return r
      \<and> resp_status r \<noteq> 404 \<and> \<not> resp_ok r
    \<longrightarrow> apiRequest_loop remote creator paths ep opts (p # rest) h
        = (if p = last paths
           then (Return JNull,
                 h @ [Fetch (creator_apiUrl creator @ p @ ep)
                        (make_init (creator_headers creator) opts)])
           else apiRequest_loop remote creator paths ep opts rest
                  (h @ [Fetch (creator_apiUrl creator @ p @ ep)
                          (make_init (creator_headers creator) opts)])))"
proof (intro conjI impI)
  assume a: "remote h (apiUrl agent @ p @ ep) (make_init (headers agent) opts) = Return r
      \<and> resp_status r \<noteq> 404 \<and> \<not> resp_ok r"
  then have "request_attempt remote agent ep opts p h
        = (Failed (Error (''API error '' @ decimal (resp_status r) @ '': '' @ resp_text r)),
           h @ [Fetch (apiUrl agent @ p @ ep) (make_init (headers agent) opts)])"
    by (simp add: request_attempt_def fetch_def)
  then show "request_loop remote agent paths ep opts (p # rest) h
        = (if p = last paths
           then (Throw (Error (''API error '' @ decimal (resp_status r) @ '': ''
                               @ resp_text r)),
                 h @ [Fetch (apiUrl agent @ p @ ep) (make_init (headers agent) opts)])
           else request_loop remote agent paths ep opts rest
                  (h @ [Fetch (apiUrl agent @ p @ ep) (make_init (headers agent) opts)]))"
    by simp
next
  assume a: "remote h (creator_apiUrl creator @ p @ ep) (make_init (creator_headers creator) opts)
        = Return r
      \<and> resp_status r \<noteq> 404 \<and> \<not> resp_ok r"
  then have "apiRequest_attempt remote creator ep opts p h
        = (ApiFailed (Error (''API error '' @ decimal (resp_status r) @ '': ''
                             @ resp_text r)),
           h @ [Fetch (creator_apiUrl creator @ p @ ep)
                  (make_init (creator_headers creator) opts)])"
    by (simp add: apiRequest_attempt_def fetch_def)
  then show "apiRequest_loop remote creator paths ep opts (p # rest) h
        = (if p = last paths
           then (Return JNull,
                 h @ [Fetch (creator_apiUrl creator @ p @ ep)
                        (make_init (creator_headers creator) opts)])
           else apiRequest_loop remote creator paths ep opts rest
                  (h @ [Fetch (creator_apiUrl creator @ p @ ep)
                          (make_init (creator_headers creator) opts)]))"
    by simp
qed

lemma demo_creator_simps:
  "creator_apiUrl demo_creator = ''https://plane.example''"
  "creator_headers demo_creator = [(''Authorization'', ''Bearer key''), (''X-API-Key'', ''key''),
                  (''Content-Type'', ''application/json'')]"
  by (simp_all add: demo_creator_def)

lemma forbidden_simps:
  "resp_status forbidden = 403" "\<not> resp_ok forbidden" "resp_text forbidden = ''denied''"
  by (simp_all add: forbidden_def resp_ok_def)

lemma decimal_403: "decimal 403 = ''403''"
  by code_simp

theorem rejected_is_terminal_on_last_path_only_witness:
  "remote_forbidden [] (apiUrl demo_agent @ ''/api/v1'' @ ''/workspaces/'')
       (make_init (headers demo_agent) no_options) = Return forbidden
   \<and> resp_status forbidden \<noteq> 404 \<and> \<not> resp_ok forbidden
   \<and> request_loop remote_forbidden demo_agent agent_apiPaths ''/workspaces/'' no_options
        (''/api/v1'' # [''/api'', ''/api/public'', []]) []
       = request_loop remote_forbidden demo_agent agent_apiPaths ''/workspaces/'' no_options
           [''/api'', ''/api/public'', []]
           [Fetch ''https://plane.example/api/v1/workspaces/''
              (make_init (headers demo_agent) no_options)]
   \<and> remote_forbidden [] (apiUrl demo_agent @ [] @ ''/workspaces/'')
       (make_init (headers demo_agent) no_options) = Return forbidden
   \<and> request_loop remote_forbidden demo_agent agent_apiPaths ''/workspaces/'' no_options
        ([] # []) []
       = (Throw (Error ''API error 403: denied''),
          [Fetch ''https://plane.example/workspaces/'' (make_init (headers demo_agent) no_options)])
   \<and> remote_forbidden [] (creator_apiUrl demo_creator @ ''/api/public'' @ ''/workspaces/'')
       (make_init (creator_headers demo_creator) no_options) = Return forbidden
   \<and> apiRequest_loop remote_forbidden demo_creator creator_apiPaths ''/workspaces/'' no_options
        (''/api/public'' # []) []
       = (Return JNull,
          [Fetch ''https://plane.example/api/public/workspaces/''
             (make_init (creator_headers demo_creator) no_options)])"
proof -
  have r: "\<And>h url init. remote_forbidden h url init = Return forbidden"
    by (simp add: remote_forbidden_def)
  have l1: "last agent_apiPaths = []" "last creator_apiPaths = ''/api/public''"
    by (simp_all add: agent_apiPaths_def creator_apiPaths_def)
  show ?thesis
    using rejected_is_terminal_on_last_path_only
        [where remote = remote_forbidden and h = "[]" and agent = demo_agent
           and p = "''/api/v1''" and ep = "''/workspaces/''" and opts = no_options
           and r = forbidden and paths = agent_apiPaths
           and rest = "[''/api'', ''/api/public'', []]"]
      rejected_is_terminal_on_last_path_only
        [where remote = remote_forbidden and h = "[]" and agent = demo_agent
           and p = "[]" and ep = "''/workspaces/''" and opts = no_options
           and r = forbidden and paths = agent_apiPaths and rest = "[]"]
      rejected_is_terminal_on_last_path_only
        [where remote = remote_forbidden and h = "[]" and creator = demo_creator
           and p = "''/api/public''" and ep = "''/workspaces/''" and opts = no_options
           and r = forbidden and paths = creator_apiPaths and rest = "[]"]
    by (simp add: r l1 forbidden_simps decimal_403 demo_agent_simps demo_creator_simps
          del: request_loop.simps apiRequest_loop.simps)
qed

lemma request_attempt_history:
  "snd (request_attempt remote this ep opts p h)
   = h @ [Fetch (apiUrl this @ p @ ep) (make_init (headers this) opts)]"
  by (simp add: request_attempt_def fetch_def response_json_def
        split: completion.splits option.splits)

lemma request_attempt_Returned:
  "json_remote remote \<Longrightarrow> fst (request_attempt remote this ep opts p h) = Returned v
   \<Longrightarrow> v \<noteq> JUndefined"
  by (auto simp add: request_attempt_def fetch_def response_json_def json_remote_def
        split: completion.splits option.splits if_splits)

lemma request_loop_undefined_exhausted:
  assumes "json_remote remote"
    and "fst (request_loop remote this paths ep opts ps h) = Return JUndefined"
  shows "snd (request_loop remote this paths ep opts ps h)
         = h @ map (\<lambda>p. Fetch (apiUrl this @ p @ ep) (make_init (headers this) opts)) ps"
  using assms(2)
proof (induction ps arbitrary: h)
  case Nil
  then show ?case by simp
next
  case (Cons p ps)
  obtain a h1 where a: "request_attempt remote this ep opts p h = (a, h1)"
    by (cases "request_attempt remote this ep opts p h")
  then have h1: "h1 = h @ [Fetch (apiUrl this @ p @ ep) (make_init (headers this) opts)]"
    using request_attempt_history [of remote this ep opts p h] by simp
  show ?case
  proof (cases a)
    case NextPath
    with a Cons.prems have "fst (request_loop remote this paths ep opts ps h1) = Return JUndefined"
      by simp
    from Cons.IH [OF this] a NextPath h1 show ?thesis by simp
  next
    case (Returned v)
    with a assms(1) request_attempt_Returned [of remote this ep opts p h v]
    have "v \<noteq> JUndefined" by simp
    with a Returned Cons.prems show ?thesis by simp
  next
    case (Failed e)
    with a Cons.prems have nl: "p \<noteq> last paths"
      by (auto split: if_splits)
    with a Failed Cons.prems
    have "fst (request_loop remote this paths ep opts ps h1) = Return JUndefined"
      by simp
    from Cons.IH [OF this] a Failed nl h1 show ?thesis by simp
  qed
qed

lemma apiRequest_attempt_history:
  "snd (apiRequest_attempt remote this ep opts p h)
   = h @ [Fetch (creator_apiUrl this @ p @ ep) (make_init (creator_headers this) opts)]"
  by (simp add: apiRequest_attempt_def fetch_def response_json_def
        split: completion.splits option.splits)

lemma apiRequest_attempt_Returned:
  "json_remote remote \<Longrightarrow> fst (apiRequest_attempt remote this ep opts p h) = ApiReturned v
   \<Longrightarrow> v \<noteq> JUndefined"
  by (auto simp add: apiRequest_attempt_def fetch_def response_json_def json_remote_def
        split: completion.splits option.splits if_splits)

lemma apiRequest_loop_undefined_exhausted:
  assumes "json_remote remote"
    and "fst (apiRequest_loop remote this paths ep opts ps h) = Return JUndefined"
  shows "snd (apiRequest_loop remote this paths ep opts ps h)
         = h @ map (\<lambda>p. Fetch (creator_apiUrl this @ p @ ep)
                          (make_init (creator_headers this) opts)) ps"
  using assms(2)
proof (induction ps arbitrary: h)
  case Nil
  then show ?case by simp
next
  case (Cons p ps)
  obtain a h1 where a: "apiRequest_attempt remote this ep opts p h = (a, h1)"
    by (cases "apiRequest_attempt remote this ep opts p h")
  then have h1: "h1 = h @ [Fetch (creator_apiUrl this @ p @ ep)
                             (make_init (creator_headers this) opts)]"
    using apiRequest_attempt_history [of remote this ep opts p h] by simp
  show ?case
  proof (cases a)
    case ApiNext
    with a Cons.prems
    have "fst (apiRequest_loop remote this paths ep opts ps h1) = Return JUndefined"
      by simp
    from Cons.IH [OF this] a ApiNext h1 show ?thesis by simp
  next
    case (ApiReturned v)
    with a assms(1) apiRequest_attempt_Returned [of remote this ep opts p h v]
    have "v \<noteq> JUndefined" by simp
    with a ApiReturned Cons.prems show ?thesis by simp
  next
    case (ApiFailed e)
    with a Cons.prems have nl: "p \<noteq> last paths"
      by (auto split: if_splits)
    with a ApiFailed Cons.prems
    have "fst (apiRequest_loop remote this paths ep opts ps h1) = Return JUndefined"
      by simp
    from Cons.IH [OF this] a ApiFailed nl h1 show ?thesis by simp
  qed
qed

lemma list_all_upt_Suc:
  "list_all P [0..<Suc n] \<longleftrightarrow> P 0 \<and> list_all (\<lambda>k. P (Suc k)) [0..<n]"
proof -
  have "[0..<Suc n] = 0 # map Suc [0..<n]"
    by (simp only: map_Suc_upt) (simp add: upt_rec)
  then show ?thesis
    by (simp only: list.pred_inject list.pred_map comp_def)
qed

lemma probe_exhausted_Nil: "probe_exhausted remote this paths ep opts [] h"
  by (simp add: probe_exhausted_def)

lemma probe_exhausted_Cons:
  "probe_exhausted remote this paths ep opts (p # ps) h
   \<longleftrightarrow> goes_on (fst (request_attempt remote this ep opts p h)) (p = last paths)
       \<and> probe_exhausted remote this paths ep opts ps (h @ [probe_event this ep opts p])"
  unfolding probe_exhausted_def length_Cons list_all_upt_Suc by simp

lemma request_attempt_snd:
  "snd (request_attempt remote this ep opts p h) = h @ [probe_event this ep opts p]"
  by (simp add: probe_event_def request_attempt_history)

lemma request_loop_exhausted:
  "probe_exhausted remote this paths ep opts ps h
   \<Longrightarrow> request_loop remote this paths ep opts ps h
       = (Return JUndefined, h @ map (probe_event this ep opts) ps)"
proof (induction ps arbitrary: h)
  case Nil
  then show ?case by simp
next
  case (Cons p ps)
  obtain a h1 where a: "request_attempt remote this ep opts p h = (a, h1)"
    by (cases "request_attempt remote this ep opts p h")
  then have h1: "h1 = h @ [probe_event this ep opts p]"
    using request_attempt_snd [of remote this ep opts p h] by simp
  from Cons.prems a h1 have g: "goes_on a (p = last paths)"
    and rest: "probe_exhausted remote this paths ep opts ps h1"
    by (simp_all add: probe_exhausted_Cons)
  show ?case
  proof (cases a)
    case NextPath
    with a Cons.IH [OF rest] h1 show ?thesis by simp
  next
    case (Returned v)
    with g show ?thesis by simp
  next
    case (Failed e)
    with g a Cons.IH [OF rest] h1 show ?thesis by simp
  qed
qed

lemma request_loop_undefined_only_exhausted:
  assumes "json_remote remote"
  shows "fst (request_loop remote this paths ep opts ps h) = Return JUndefined
         \<Longrightarrow> probe_exhausted remote this paths ep opts ps h"
proof (induction ps arbitrary: h)
  case Nil
  then show ?case by (simp add: probe_exhausted_Nil)
next
  case (Cons p ps)
  obtain a h1 where a: "request_attempt remote this ep opts p h = (a, h1)"
    by (cases "request_attempt remote this ep opts p h")
  then have h1: "h1 = h @ [probe_event this ep opts p]"
    using request_attempt_snd [of remote this ep opts p h] by simp
  show ?case
  proof (cases a)
    case NextPath
    with a Cons.prems
    have "fst (request_loop remote this paths ep opts ps h1) = Return JUndefined" by simp
    from Cons.IH [OF this] a NextPath h1 show ?thesis
      by (simp add: probe_exhausted_Cons)
  next
    case (Returned v)
    with a assms request_attempt_Returned [of remote this ep opts p h v]
    have "v \<noteq> JUndefined" by simp
    with a Returned Cons.prems show ?thesis by simp
  next
    case (Failed e)
    with a Cons.prems have nl: "p \<noteq> last paths"
      by (auto split: if_splits)
    with a Failed Cons.prems
    have "fst (request_loop remote this paths ep opts ps h1) = Return JUndefined" by simp
    from Cons.IH [OF this] a Failed nl h1 show ?thesis
      by (simp add: probe_exhausted_Cons)
  qed
qed

lemma api_probe_exhausted_Nil: "api_probe_exhausted remote this paths ep opts [] h"
  by (simp add: api_probe_exhausted_def)

lemma api_probe_exhausted_Cons:
  "api_probe_exhausted remote this paths ep opts (p # ps) h
   \<longleftrightarrow> api_goes_on (fst (apiRequest_attempt remote this ep opts p h)) (p = last paths)
       \<and> api_probe_exhausted remote this paths ep opts ps (h @ [api_probe_event this ep opts p])"
  unfolding api_probe_exhausted_def length_Cons list_all_upt_Suc by simp

lemma apiRequest_attempt_snd:
  "snd (apiRequest_attempt remote this ep opts p h) = h @ [api_probe_event this ep opts p]"
  by (simp add: api_probe_event_def apiRequest_attempt_history)

lemma apiRequest_loop_exhausted:
  "api_probe_exhausted remote this paths ep opts ps h
   \<Longrightarrow> apiRequest_loop remote this paths ep opts ps h
       = (Return JUndefined, h @ map (api_probe_event this ep opts) ps)"
proof (induction ps arbitrary: h)
  case Nil
  then show ?case by simp
next
  case (Cons p ps)
  obtain a h1 where a: "apiRequest_attempt remote this ep opts p h = (a, h1)"
    by (cases "apiRequest_attempt remote this ep opts p h")
  then have h1: "h1 = h @ [api_probe_event this ep opts p]"
    using apiRequest_attempt_snd [of remote this ep opts p h] by simp
  from Cons.prems a h1 have g: "api_goes_on a (p = last paths)"
    and rest: "api_probe_exhausted remote this paths ep opts ps h1"
    by (simp_all add: api_probe_exhausted_Cons)
  show ?case
  proof (cases a)
    case ApiNext
    with a Cons.IH [OF rest] h1 show ?thesis by simp
  next
    case (ApiReturned v)
    with g show ?thesis by simp
  next
    case (ApiFailed e)
    with g a Cons.IH [OF rest] h1 show ?thesis by simp
  qed
qed

lemma apiRequest_loop_undefined_only_exhausted:
  assumes "json_remote remote"
  shows "fst (apiRequest_loop remote this paths ep opts ps h) = Return JUndefined
         \<Longrightarrow> api_probe_exhausted remote this paths ep opts ps h"
proof (induction ps arbitrary: h)
  case Nil
  then show ?case by (simp add: api_probe_exhausted_Nil)
next
  case (Cons p ps)
  obtain a h1 where a: "apiRequest_attempt remote this ep opts p h = (a, h1)"
    by (cases "apiRequest_attempt remote this ep opts p h")
  then have h1: "h1 = h @ [api_probe_event this ep opts p]"
    using apiRequest_attempt_snd [of remote this ep opts p h] by simp
  show ?case
  proof (cases a)
    case ApiNext
    with a Cons.prems
    have "fst (apiRequest_loop remote this paths ep opts ps h1) = Return JUndefined" by simp
    from Cons.IH [OF this] a ApiNext h1 show ?thesis
      by (simp add: api_probe_exhausted_Cons)
  next
    case (ApiReturned v)
    with a assms apiRequest_attempt_Returned [of remote this ep opts p h v]
    have "v \<noteq> JUndefined" by simp
    with a ApiReturned Cons.prems show ?thesis by simp
  next
    case (ApiFailed e)
    with a Cons.prems have nl: "p \<noteq> last paths"
      by (auto split: if_splits)
    with a ApiFailed Cons.prems
    have "fst (apiRequest_loop remote this paths ep opts ps h1) = Return JUndefined" by simp
    from Cons.IH [OF this] a ApiFailed nl h1 show ?thesis
      by (simp add: api_probe_exhausted_Cons)
  qed
qed

text \<open>
  C5, as the specification states it, fails. The outcome of a probe that runs out of
  paths is the return value \<open>undefined\<close>, and it does not tell the caller that no path
  exists: a remote side that rejects the first three paths with 403 and answers 404 on
  the last one gives \<open>request\<close> the same result and the same history as a remote side
  that answers 404 everywhere. Nor is the outcome kept apart from data: on the remote
  side with no path, \<open>createAITicket\<close> returns \<open>undefined\<close> as the ticket and the batch
  records a success with it.
\<close>

theorem unavailable_not_distinct_counterexample:
  "remote_rejects_then_404 [] (apiUrl demo_agent @ ''/api/v1'' @ ''/workspaces/'')
       (make_init (headers demo_agent) no_options) = Return forbidden
   \<and> resp_status forbidden = 403
   \<and> request remote_rejects_then_404 demo_agent ''/workspaces/'' no_options []
       = request remote_404 demo_agent ''/workspaces/'' no_options []
   \<and> fst (request remote_404 demo_agent ''/workspaces/'' no_options []) = Return JUndefined
   \<and> fst (createAITicket remote_404 demo_agent ''indigo'' ''p1'' ''Add dark mode'' [])
       = Return JUndefined
   \<and> fst (createTicketsFromList remote_404 demo_agent ''indigo'' ''p1'' [''Add dark mode''] [])
       = [\<lparr> entry_success = True, entry_ticket = Some JUndefined, entry_error = None,
            entry_prompt = ''Add dark mode'' \<rparr>]"
proof -
  have a: "remote_rejects_then_404 [] (apiUrl demo_agent @ ''/api/v1'' @ ''/workspaces/'')
       (make_init (headers demo_agent) no_options) = Return forbidden"
    by (simp add: demo_agent_simps remote_rejects_then_404_def)
  have b: "resp_status forbidden = 403" by (simp add: forbidden_def)
  have c: "request remote_rejects_then_404 demo_agent ''/workspaces/'' no_options []
       = request remote_404 demo_agent ''/workspaces/'' no_options []"
    by code_simp
  have d: "fst (request remote_404 demo_agent ''/workspaces/'' no_options []) = Return JUndefined"
    by code_simp
  have e: "fst (createAITicket remote_404 demo_agent ''indigo'' ''p1'' ''Add dark mode'' [])
       = Return JUndefined"
    by code_simp
  have f: "fst (createTicketsFromList remote_404 demo_agent ''indigo'' ''p1''
                  [''Add dark mode''] [])
       = [\<lparr> entry_success = True, entry_ticket = Some JUndefined, entry_error = None,
            entry_prompt = ''Add dark mode'' \<rparr>]"
    by code_simp
  show ?thesis using a b c d e f by simp
qed

text \<open>
  C5, amended. A call whose probe runs out of paths returns \<open>undefined\<close>, an ordinary
  return value, after one \<open>fetch\<close> for each path in the order of the list. The probe
  runs out when every attempt lets the loop go on: the path answers 404 (for
  \<open>apiRequest\<close> also 2xx without JSON), or the attempt fails on a path that is not the
  last one; every path answering 404 is the plain case. Where the bodies the remote
  side sends parse to JSON values, this is the only way to \<open>undefined\<close>: a call that
  returns it has met no JSON answer and no failure on the last path, so the outcome is
  apart from the data of a response and from the error of the last path, which
  \<open>request\<close> throws and \<open>apiRequest\<close> answers with \<open>null\<close>. It is not apart from rejections
  on the earlier paths.
\<close>

theorem undefined_marks_exhausted_probe:
  "(probe_exhausted remote agent agent_apiPaths ep opts agent_apiPaths h
    \<longrightarrow> request remote agent ep opts h
        = (Return JUndefined, h @ map (probe_event agent ep opts) agent_apiPaths))
   \<and> (json_remote remote \<and> fst (request remote agent ep opts h) = Return JUndefined
      \<longrightarrow> probe_exhausted remote agent agent_apiPaths ep opts agent_apiPaths h)
   \<and> (api_probe_exhausted remote creator creator_apiPaths ep opts creator_apiPaths h
      \<longrightarrow> apiRequest remote creator ep opts h
          = (Return JUndefined, h @ map (api_probe_event creator ep opts) creator_apiPaths))
   \<and> (json_remote remote \<and> fst (apiRequest remote creator ep opts h) = Return JUndefined
      \<longrightarrow> api_probe_exhausted remote creator creator_apiPaths ep opts creator_apiPaths h)
   \<and> (list_all (\<lambda>p. answers_404 remote (apiUrl agent @ p @ ep) (make_init (headers agent) opts))
        agent_apiPaths
      \<longrightarrow> request remote agent ep opts h
          = (Return JUndefined, h @ map (probe_event agent ep opts) agent_apiPaths))
   \<and> (list_all (\<lambda>p. answers_404 remote (creator_apiUrl creator @ p @ ep)
                       (make_init (creator_headers creator) opts))
        creator_apiPaths
      \<longrightarrow> apiRequest remote creator ep opts h
          = (Return JUndefined, h @ map (api_probe_event creator ep opts) creator_apiPaths))"
proof (intro conjI impI)
  assume "probe_exhausted remote agent agent_apiPaths ep opts agent_apiPaths h"
  then show "request remote agent ep opts h
        = (Return JUndefined, h @ map (probe_event agent ep opts) agent_apiPaths)"
    unfolding request_def by (rule request_loop_exhausted)
next
  assume "json_remote remote \<and> fst (request remote agent ep opts h) = Return JUndefined"
  then show "probe_exhausted remote agent agent_apiPaths ep opts agent_apiPaths h"
    unfolding request_def
    using request_loop_undefined_only_exhausted
      [of remote agent agent_apiPaths ep opts agent_apiPaths h]
    by simp
next
  assume "api_probe_exhausted remote creator creator_apiPaths ep opts creator_apiPaths h"
  then show "apiRequest remote creator ep opts h
          = (Return JUndefined, h @ map (api_probe_event creator ep opts) creator_apiPaths)"
    unfolding apiRequest_def by (rule apiRequest_loop_exhausted)
next
  assume "json_remote remote \<and> fst (apiRequest remote creator ep opts h) = Return JUndefined"
  then show "api_probe_exhausted remote creator creator_apiPaths ep opts creator_apiPaths h"
    unfolding apiRequest_def
    using apiRequest_loop_undefined_only_exhausted
      [of remote creator creator_apiPaths ep opts creator_apiPaths h]
    by simp
next
  assume "list_all (\<lambda>p. answers_404 remote (apiUrl agent @ p @ ep)
                          (make_init (headers agent) opts)) agent_apiPaths"
  then show "request remote agent ep opts h
          = (Return JUndefined, h @ map (probe_event agent ep opts) agent_apiPaths)"
    unfolding request_def
    using request_loop_all_404 [of remote agent ep opts agent_apiPaths agent_apiPaths h]
    by (simp add: probe_event_def [abs_def])
next
  assume "list_all (\<lambda>p. answers_404 remote (creator_apiUrl creator @ p @ ep)
                       (make_init (creator_headers creator) opts)) creator_apiPaths"
  then show "apiRequest remote creator ep opts h
          = (Return JUndefined, h @ map (api_probe_event creator ep opts) creator_apiPaths)"
    unfolding apiRequest_def
    using apiRequest_loop_all_404
      [of remote creator ep opts creator_apiPaths creator_apiPaths h]
    by (simp add: api_probe_event_def [abs_def])
qed

theorem undefined_marks_exhausted_probe_witness:
  "probe_exhausted remote_rejects_then_404 demo_agent agent_apiPaths ''/workspaces/'' no_options
      agent_apiPaths []
   \<and> request remote_rejects_then_404 demo_agent ''/workspaces/'' no_options []
       = (Return JUndefined,
          map (probe_event demo_agent ''/workspaces/'' no_options) agent_apiPaths)
   \<and> json_remote remote_404
   \<and> fst (request remote_404 demo_agent ''/workspaces/'' no_options []) = Return JUndefined
   \<and> probe_exhausted remote_404 demo_agent agent_apiPaths ''/workspaces/'' no_options
        agent_apiPaths []
   \<and> api_probe_exhausted remote_html demo_creator creator_apiPaths ''/workspaces/'' no_options
        creator_apiPaths []
   \<and> apiRequest remote_html demo_creator ''/workspaces/'' no_options []
       = (Return JUndefined,
          map (api_probe_event demo_creator ''/workspaces/'' no_options) creator_apiPaths)
   \<and> json_remote remote_html
   \<and> fst (apiRequest remote_html demo_creator ''/workspaces/'' no_options []) = Return JUndefined
   \<and> list_all (\<lambda>p. answers_404 remote_404 (apiUrl demo_agent @ p @ ''/workspaces/'')
                    (make_init (headers demo_agent) no_options)) agent_apiPaths
   \<and> request remote_404 demo_agent ''/workspaces/'' no_options []
       = (Return JUndefined,
          map (probe_event demo_agent ''/workspaces/'' no_options) agent_apiPaths)
   \<and> list_all (\<lambda>p. answers_404 remote_404 (creator_apiUrl demo_creator @ p @ ''/workspaces/'')
                    (make_init (creator_headers demo_creator) no_options)) creator_apiPaths
   \<and> apiRequest remote_404 demo_creator ''/workspaces/'' no_options []
       = (Return JUndefined,
          map (api_probe_event demo_creator ''/workspaces/'' no_options) creator_apiPaths)"
proof -
  have e1: "probe_exhausted remote_rejects_then_404 demo_agent agent_apiPaths ''/workspaces/''
      no_options agent_apiPaths []"
    by code_simp
  have e2: "api_probe_exhausted remote_html demo_creator creator_apiPaths ''/workspaces/''
      no_options creator_apiPaths []"
    by code_simp
  have j: "json_remote remote_404" "json_remote remote_html"
    by (simp_all add: json_remote_def remote_404_def not_found_def remote_html_def html_page_def)
  have u1: "fst (request remote_404 demo_agent ''/workspaces/'' no_options []) = Return JUndefined"
    by code_simp
  have u2: "fst (apiRequest remote_html demo_creator ''/workspaces/'' no_options [])
      = Return JUndefined"
    by code_simp
  have a: "list_all (\<lambda>p. answers_404 remote_404 (apiUrl demo_agent @ p @ ''/workspaces/'')
                    (make_init (headers demo_agent) no_options)) agent_apiPaths"
    by (simp add: answers_404_remote_404 list_all_iff)
  have b: "list_all (\<lambda>p. answers_404 remote_404 (creator_apiUrl demo_creator @ p @ ''/workspaces/'')
                    (make_init (creator_headers demo_creator) no_options)) creator_apiPaths"
    by (simp add: answers_404_remote_404 list_all_iff)
  note t1 = undefined_marks_exhausted_probe
      [where remote = remote_rejects_then_404 and agent = demo_agent and ep = "''/workspaces/''"
         and opts = no_options and creator = demo_creator and h = "[]"]
  note t2 = undefined_marks_exhausted_probe
      [where remote = remote_404 and agent = demo_agent and ep = "''/workspaces/''"
         and opts = no_options and creator = demo_creator and h = "[]"]
  note t3 = undefined_marks_exhausted_probe
      [where remote = remote_html and agent = demo_agent and ep = "''/workspaces/''"
         and opts = no_options and creator = demo_creator and h = "[]"]
  from t1 e1 have r1: "request remote_rejects_then_404 demo_agent ''/workspaces/'' no_options []
       = (Return JUndefined,
          map (probe_event demo_agent ''/workspaces/'' no_options) agent_apiPaths)"
    by simp
  from t2 j u1 have r2: "probe_exhausted remote_404 demo_agent agent_apiPaths ''/workspaces/''
        no_options agent_apiPaths []"
    by blast
  from t3 e2 have r3: "apiRequest remote_html demo_creator ''/workspaces/'' no_options []
       = (Return JUndefined,
          map (api_probe_event demo_creator ''/workspaces/'' no_options) creator_apiPaths)"
    by simp
  from t2 a have r4: "request remote_404 demo_agent ''/workspaces/'' no_options []
       = (Return JUndefined,
          map (probe_event demo_agent ''/workspaces/'' no_options) agent_apiPaths)"
    by simp
  from t2 b have r5: "apiRequest remote_404 demo_creator ''/workspaces/'' no_options []
       = (Return JUndefined,
          map (api_probe_event demo_creator ''/workspaces/'' no_options) creator_apiPaths)"
    by simp
  show ?thesis
    using e1 e2 j u1 u2 a b r1 r2 r3 r4 r5 by blast
qed

section \<open>Ticket creation and the batch\<close>

lemma submit_each_Cons:
  "submit_each remote this w pid (p # ps) h
   = (case createAITicket remote this w pid p h of
        (Return t, h1) \<Rightarrow>
          (\<lparr> entry_success = True, entry_ticket = Some t, entry_error = None,
              entry_prompt = p \<rparr>
             # fst (submit_each remote this w pid ps (setTimeout 1000 h1)),
           snd (submit_each remote this w pid ps (setTimeout 1000 h1)))
      | (Throw e, h1) \<Rightarrow>
          (\<lparr> entry_success = False, entry_ticket = None, entry_error = Some (message e),
              entry_prompt = p \<rparr>
             # fst (submit_each remote this w pid ps h1),
           snd (submit_each remote this w pid ps h1)))"
  by (simp split: prod.splits completion.splits)

text \<open>The \<open>for\<close> loop of \<open>createTicketsFromList\<close> computes the recursion on the prompts.\<close>

lemma batch_loop_submit_each:
  "batch_loop remote this w pid ticketList i results h
   = (results @ fst (submit_each remote this w pid (drop i ticketList) h),
      snd (submit_each remote this w pid (drop i ticketList) h))"
proof (induction remote this w pid ticketList i results h rule: batch_loop.induct)
  case (1 remote this w pid ticketList i results h)
  show ?case
  proof (cases "i < length ticketList")
    case False
    then show ?thesis by (simp add: batch_loop.simps)
  next
    case True
    then have d: "drop i ticketList = ticketList ! i # drop (Suc i) ticketList"
      by (simp add: Cons_nth_drop_Suc)
    obtain c h1 where c: "createAITicket remote this w pid (ticketList ! i) h = (c, h1)"
      by (cases "createAITicket remote this w pid (ticketList ! i) h")
    show ?thesis
    proof (cases c)
      case (Return t)
      with True c "1.IH"(1) show ?thesis
        by (subst batch_loop.simps) (simp add: d submit_each_Cons del: submit_each.simps)
    next
      case (Throw e)
      with True c "1.IH"(2) show ?thesis
        by (subst batch_loop.simps) (simp add: d submit_each_Cons del: submit_each.simps)
    qed
  qed
qed

lemma createTicketsFromList_submit_each:
  "createTicketsFromList remote this w pid ps h = submit_each remote this w pid ps h"
  by (simp add: createTicketsFromList_def batch_loop_submit_each)

lemma submit_each_prompts:
  "map entry_prompt (fst (submit_each remote this w pid ps h)) = ps"
  by (induction ps arbitrary: h)
     (simp_all add: submit_each_Cons del: submit_each.simps(2)
        split: prod.splits completion.splits)

lemma submit_each_append:
  "submit_each remote this w pid (ps @ qs) h
   = (fst (submit_each remote this w pid ps h)
        @ fst (submit_each remote this w pid qs (snd (submit_each remote this w pid ps h))),
      snd (submit_each remote this w pid qs (snd (submit_each remote this w pid ps h))))"
  by (induction ps arbitrary: h)
     (simp_all add: submit_each_Cons del: submit_each.simps(2)
        split: prod.splits completion.splits)

lemma submit_each_length:
  "length (fst (submit_each remote this w pid ps h)) = length ps"
  using submit_each_prompts [of remote this w pid ps h] by (metis length_map)

lemma submit_each_nth:
  "fst (submit_each remote this w pid (pre @ p # post) h) ! length pre
   = (case fst (createAITicket remote this w pid p (snd (submit_each remote this w pid pre h))) of
        Return t \<Rightarrow> \<lparr> entry_success = True, entry_ticket = Some t, entry_error = None,
                       entry_prompt = p \<rparr>
      | Throw e \<Rightarrow> \<lparr> entry_success = False, entry_ticket = None,
                      entry_error = Some (message e), entry_prompt = p \<rparr>)"
  by (simp add: submit_each_append submit_each_length nth_append submit_each_Cons
        del: submit_each.simps(2) split: prod.splits completion.splits)

text \<open>
  C6. For every list of prompts \<open>createTicketsFromList\<close> returns one entry for each
  prompt, in the order of the prompts, each with its prompt. The entry at any position
  records how the submission of the prompt at that position completed, in the history
  the prompts before it left behind: a success with the ticket when \<open>createAITicket\<close>
  returned, a failure with the error's message when it threw. So a prompt whose
  submission throws yields a failure entry, and the prompts after it are submitted all
  the same.
\<close>

theorem batch_one_entry_per_prompt:
  "length (fst (createTicketsFromList remote this w pid ps h)) = length ps
   \<and> map entry_prompt (fst (createTicketsFromList remote this w pid ps h)) = ps
   \<and> fst (createTicketsFromList remote this w pid (pre @ p # post) h) ! length pre
       = (case fst (createAITicket remote this w pid p
                      (snd (createTicketsFromList remote this w pid pre h))) of
            Return t \<Rightarrow> \<lparr> entry_success = True, entry_ticket = Some t, entry_error = None,
                           entry_prompt = p \<rparr>
          | Throw e \<Rightarrow> \<lparr> entry_success = False, entry_ticket = None,
                          entry_error = Some (message e), entry_prompt = p \<rparr>)"
  unfolding createTicketsFromList_submit_each
  using submit_each_length submit_each_prompts submit_each_nth by blast

text \<open>
  The scenario of the claim: of three prompts the second one cannot be submitted. The
  result has three entries, the first and the third successful, the second failed.
\<close>

theorem batch_one_entry_per_prompt_witness:
  "length (fst (createTicketsFromList remote_boom demo_agent ''indigo'' ''p1''
                  [''Add dark mode'', ''boom'', ''Update docs''] [])) = 3
   \<and> map entry_prompt
        (fst (createTicketsFromList remote_boom demo_agent ''indigo'' ''p1''
                [''Add dark mode'', ''boom'', ''Update docs''] []))
       = [''Add dark mode'', ''boom'', ''Update docs'']
   \<and> map entry_success
        (fst (createTicketsFromList remote_boom demo_agent ''indigo'' ''p1''
                [''Add dark mode'', ''boom'', ''Update docs''] []))
       = [True, False, True]
   \<and> fst (createTicketsFromList remote_boom demo_agent ''indigo'' ''p1''
            ([''Add dark mode''] @ ''boom'' # [''Update docs'']) []) ! length [''Add dark mode'']
       = \<lparr> entry_success = False, entry_ticket = None, entry_error = Some ''fetch failed'',
           entry_prompt = ''boom'' \<rparr>"
proof -
  have ex: "map entry_success
        (fst (createTicketsFromList remote_boom demo_agent ''indigo'' ''p1''
                [''Add dark mode'', ''boom'', ''Update docs''] []))
       = [True, False, True]"
    by code_simp
  have thrown: "fst (createAITicket remote_boom demo_agent ''indigo'' ''p1'' ''boom''
                  (snd (createTicketsFromList remote_boom demo_agent ''indigo'' ''p1''
                          [''Add dark mode''] [])))
       = Throw (TypeError ''fetch failed'')"
    by code_simp
  show ?thesis
    using batch_one_entry_per_prompt
        [where remote = remote_boom and this = demo_agent and w = "''indigo''"
           and pid = "''p1''" and ps = "[''Add dark mode'', ''boom'', ''Update docs'']"
           and h = "[]" and pre = "[''Add dark mode'']" and p = "''boom''"
           and post = "[''Update docs'']"]
      ex thrown
    by simp
qed

text \<open>
  C4 fails on the code. The batch is two prompts; the first one cannot be submitted
  (each of the four paths fails), the second one can. The history shows the four calls
  for the first prompt, then at once the call for the second prompt: the only wait is
  the one after the success.
\<close>

theorem rate_limit_skipped_after_failure:
  "map entry_success
     (fst (createTicketsFromList remote_boom demo_agent ''indigo'' ''p1''
             [''boom'', ''Add dark mode''] []))
     = [False, True]
   \<and> map event_outline
       (snd (createTicketsFromList remote_boom demo_agent ''indigo'' ''p1''
               [''boom'', ''Add dark mode''] []))
     = [Inl ''https://plane.example/api/v1/workspaces/indigo/projects/p1/issues/'',
        Inl ''https://plane.example/api/workspaces/indigo/projects/p1/issues/'',
        Inl ''https://plane.example/api/public/workspaces/indigo/projects/p1/issues/'',
        Inl ''https://plane.example/workspaces/indigo/projects/p1/issues/'',
        Inl ''https://plane.example/api/v1/workspaces/indigo/projects/p1/issues/'',
        Inr 1000]"
proof -
  have a: "map entry_success
     (fst (createTicketsFromList remote_boom demo_agent ''indigo'' ''p1''
             [''boom'', ''Add dark mode''] []))
     = [False, True]"
    by code_simp
  have b: "map event_outline
       (snd (createTicketsFromList remote_boom demo_agent ''indigo'' ''p1''
               [''boom'', ''Add dark mode''] []))
     = [Inl ''https://plane.example/api/v1/workspaces/indigo/projects/p1/issues/'',
        Inl ''https://plane.example/api/workspaces/indigo/projects/p1/issues/'',
        Inl ''https://plane.example/api/public/workspaces/indigo/projects/p1/issues/'',
        Inl ''https://plane.example/workspaces/indigo/projects/p1/issues/'',
        Inl ''https://plane.example/api/v1/workspaces/indigo/projects/p1/issues/'',
        Inr 1000]"
    by code_simp
  show ?thesis using a b by simp
qed

text \<open>
  C3, as the specification states it, fails. The remote side creates the issue (the
  answer carries the id 42) and rejects the comment on each of the four paths:
  \<open>createAITicket\<close> throws the error of the comment, and the batch records the prompt as
  failed.
\<close>

theorem comment_failure_fails_ticket_counterexample:
  "fst (createIssue remote_no_comments demo_agent ''indigo'' ''p1''
          (issueData_of (analyzePrompt ''Add dark mode'')) [])
     = Return (JObj [(''id'', JStr ''42'')])
   \<and> fst (createAITicket remote_no_comments demo_agent ''indigo'' ''p1'' ''Add dark mode'' [])
     = Throw (Error ''API error 500: unavailable'')
   \<and> map event_outline
       (snd (createAITicket remote_no_comments demo_agent ''indigo'' ''p1'' ''Add dark mode'' []))
     = [Inl ''https://plane.example/api/v1/workspaces/indigo/projects/p1/issues/'',
        Inl ''https://plane.example/api/v1/workspaces/indigo/projects/p1/issues/42/comments/'',
        Inl ''https://plane.example/api/workspaces/indigo/projects/p1/issues/42/comments/'',
        Inl ''https://plane.example/api/public/workspaces/indigo/projects/p1/issues/42/comments/'',
        Inl ''https://plane.example/workspaces/indigo/projects/p1/issues/42/comments/'']
   \<and> fst (createTicketsFromList remote_no_comments demo_agent ''indigo'' ''p1''
            [''Add dark mode''] [])
     = [\<lparr> entry_success = False, entry_ticket = None,
          entry_error = Some ''API error 500: unavailable'', entry_prompt = ''Add dark mode'' \<rparr>]"
proof -
  have a: "fst (createIssue remote_no_comments demo_agent ''indigo'' ''p1''
          (issueData_of (analyzePrompt ''Add dark mode'')) [])
     = Return (JObj [(''id'', JStr ''42'')])"
    by code_simp
  have b: "fst (createAITicket remote_no_comments demo_agent ''indigo'' ''p1'' ''Add dark mode'' [])
     = Throw (Error ''API error 500: unavailable'')"
    by code_simp
  have c: "map event_outline
       (snd (createAITicket remote_no_comments demo_agent ''indigo'' ''p1'' ''Add dark mode'' []))
     = [Inl ''https://plane.example/api/v1/workspaces/indigo/projects/p1/issues/'',
        Inl ''https://plane.example/api/v1/workspaces/indigo/projects/p1/issues/42/comments/'',
        Inl ''https://plane.example/api/workspaces/indigo/projects/p1/issues/42/comments/'',
        Inl ''https://plane.example/api/public/workspaces/indigo/projects/p1/issues/42/comments/'',
        Inl ''https://plane.example/workspaces/indigo/projects/p1/issues/42/comments/'']"
    by code_simp
  have d: "fst (createTicketsFromList remote_no_comments demo_agent ''indigo'' ''p1''
            [''Add dark mode''] [])
     = [\<lparr> entry_success = False, entry_ticket = None,
          entry_error = Some ''API error 500: unavailable'', entry_prompt = ''Add dark mode'' \<rparr>]"
    by code_simp
  show ?thesis using a b c d by simp
qed

text \<open>
  C3, amended. \<open>createAITicket\<close> posts the analysis comment only when the created issue
  is truthy and has a truthy \<open>id\<close>. When the comment call throws, \<open>createAITicket\<close>
  throws the same error instead of returning the issue, and a batch of this one prompt
  records a failure with the error's message. When the comment call returns, and when
  no comment is posted, \<open>createAITicket\<close> returns the issue.
\<close>

theorem comment_failure_is_rethrown:
  "(fst (createIssue remote this w pid (issueData_of (analyzePrompt p)) h) = Return issue
      \<and> truthy issue \<and> get_prop issue ''id'' = Return issueId \<and> truthy issueId
      \<and> fst (addComment remote this w pid issueId (aiComment (analyzePrompt p))
               (snd (createIssue remote this w pid (issueData_of (analyzePrompt p)) h)))
          = Throw e
    \<longrightarrow> fst (createAITicket remote this w pid p h) = Throw e
        \<and> fst (createTicketsFromList remote this w pid [p] h)
          = [\<lparr> entry_success = False, entry_ticket = None, entry_error = Some (message e),
                entry_prompt = p \<rparr>])
   \<and> (fst (createIssue remote this w pid (issueData_of (analyzePrompt p)) h) = Return issue
      \<and> truthy issue \<and> get_prop issue ''id'' = Return issueId \<and> truthy issueId
      \<and> fst (addComment remote this w pid issueId (aiComment (analyzePrompt p))
               (snd (createIssue remote this w pid (issueData_of (analyzePrompt p)) h)))
          = Return c
    \<longrightarrow> fst (createAITicket remote this w pid p h) = Return issue)
   \<and> (fst (createIssue remote this w pid (issueData_of (analyzePrompt p)) h) = Return issue
      \<and> (\<not> truthy issue \<or> (get_prop issue ''id'' = Return issueId \<and> \<not> truthy issueId))
    \<longrightarrow> createAITicket remote this w pid p h
        = (Return issue, snd (createIssue remote this w pid (issueData_of (analyzePrompt p)) h)))"
proof -
  obtain r1 h1 where
    ci: "createIssue remote this w pid (issueData_of (analyzePrompt p)) h = (r1, h1)"
    by (cases "createIssue remote this w pid (issueData_of (analyzePrompt p)) h")
  obtain r2 h2 where
    ac: "addComment remote this w pid issueId (aiComment (analyzePrompt p)) h1 = (r2, h2)"
    by (cases "addComment remote this w pid issueId (aiComment (analyzePrompt p)) h1")
  show ?thesis
    unfolding createTicketsFromList_submit_each
    by (auto simp add: createAITicket_def Let_def ci ac split: completion.splits)
qed

theorem comment_failure_is_rethrown_witness:
  "fst (createIssue remote_no_comments demo_agent ''indigo'' ''p1''
          (issueData_of (analyzePrompt ''Add dark mode'')) [])
     = Return (JObj [(''id'', JStr ''42'')])
   \<and> truthy (JObj [(''id'', JStr ''42'')])
   \<and> get_prop (JObj [(''id'', JStr ''42'')]) ''id'' = Return (JStr ''42'')
   \<and> truthy (JStr ''42'')
   \<and> fst (addComment remote_no_comments demo_agent ''indigo'' ''p1'' (JStr ''42'')
            (aiComment (analyzePrompt ''Add dark mode''))
            (snd (createIssue remote_no_comments demo_agent ''indigo'' ''p1''
                    (issueData_of (analyzePrompt ''Add dark mode'')) [])))
     = Throw (Error ''API error 500: unavailable'')
   \<and> fst (createAITicket remote_no_comments demo_agent ''indigo'' ''p1'' ''Add dark mode'' [])
     = Throw (Error ''API error 500: unavailable'')
   \<and> fst (createTicketsFromList remote_no_comments demo_agent ''indigo'' ''p1''
            [''Add dark mode''] [])
     = [\<lparr> entry_success = False, entry_ticket = None,
          entry_error = Some ''API error 500: unavailable'', entry_prompt = ''Add dark mode'' \<rparr>]
   \<and> fst (createIssue remote_accepts demo_agent ''indigo'' ''p1''
          (issueData_of (analyzePrompt ''Add dark mode'')) [])
     = Return (JObj [(''id'', JStr ''42'')])
   \<and> fst (addComment remote_accepts demo_agent ''indigo'' ''p1'' (JStr ''42'')
            (aiComment (analyzePrompt ''Add dark mode''))
            (snd (createIssue remote_accepts demo_agent ''indigo'' ''p1''
                    (issueData_of (analyzePrompt ''Add dark mode'')) [])))
     = Return (JObj [(''id'', JStr ''42'')])
   \<and> fst (createAITicket remote_accepts demo_agent ''indigo'' ''p1'' ''Add dark mode'' [])
     = Return (JObj [(''id'', JStr ''42'')])
   \<and> fst (createIssue remote_boom demo_agent ''indigo'' ''p1''
          (issueData_of (analyzePrompt ''Add dark mode'')) [])
     = Return (JObj [(''name'', JStr ''created'')])
   \<and> get_prop (JObj [(''name'', JStr ''created'')]) ''id'' = Return JUndefined
   \<and> \<not> truthy JUndefined
   \<and> createAITicket remote_boom demo_agent ''indigo'' ''p1'' ''Add dark mode'' []
     = (Return (JObj [(''name'', JStr ''created'')]),
        snd (createIssue remote_boom demo_agent ''indigo'' ''p1''
               (issueData_of (analyzePrompt ''Add dark mode'')) []))"
proof -
  have a1: "fst (createIssue remote_no_comments demo_agent ''indigo'' ''p1''
          (issueData_of (analyzePrompt ''Add dark mode'')) [])
     = Return (JObj [(''id'', JStr ''42'')])"
    by code_simp
  have a2: "fst (addComment remote_no_comments demo_agent ''indigo'' ''p1'' (JStr ''42'')
            (aiComment (analyzePrompt ''Add dark mode''))
            (snd (createIssue remote_no_comments demo_agent ''indigo'' ''p1''
                    (issueData_of (analyzePrompt ''Add dark mode'')) [])))
     = Throw (Error ''API error 500: unavailable'')"
    by code_simp
  have b1: "fst (createIssue remote_accepts demo_agent ''indigo'' ''p1''
          (issueData_of (analyzePrompt ''Add dark mode'')) [])
     = Return (JObj [(''id'', JStr ''42'')])"
    by code_simp
  have b2: "fst (addComment remote_accepts demo_agent ''indigo'' ''p1'' (JStr ''42'')
            (aiComment (analyzePrompt ''Add dark mode''))
            (snd (createIssue remote_accepts demo_agent ''indigo'' ''p1''
                    (issueData_of (analyzePrompt ''Add dark mode'')) [])))
     = Return (JObj [(''id'', JStr ''42'')])"
    by code_simp
  have c1: "fst (createIssue remote_boom demo_agent ''indigo'' ''p1''
          (issueData_of (analyzePrompt ''Add dark mode'')) [])
     = Return (JObj [(''name'', JStr ''created'')])"
    by code_simp
  have g: "truthy (JObj [(''id'', JStr ''42'')])"
    "get_prop (JObj [(''id'', JStr ''42'')]) ''id'' = Return (JStr ''42'')"
    "truthy (JStr ''42'')"
    "get_prop (JObj [(''name'', JStr ''created'')]) ''id'' = Return JUndefined"
    "\<not> truthy JUndefined"
    by simp_all
  note t1 = comment_failure_is_rethrown
        [where remote = remote_no_comments and this = demo_agent and w = "''indigo''"
           and pid = "''p1''" and p = "''Add dark mode''" and h = "[]"
           and issue = "JObj [(''id'', JStr ''42'')]" and issueId = "JStr ''42''"
           and e = "Error ''API error 500: unavailable''"]
  note t2 = comment_failure_is_rethrown
        [where remote = remote_accepts and this = demo_agent and w = "''indigo''"
           and pid = "''p1''" and p = "''Add dark mode''" and h = "[]"
           and issue = "JObj [(''id'', JStr ''42'')]" and issueId = "JStr ''42''"
           and c = "JObj [(''id'', JStr ''42'')]"]
  note t3 = comment_failure_is_rethrown
        [where remote = remote_boom and this = demo_agent and w = "''indigo''"
           and pid = "''p1''" and p = "''Add dark mode''" and h = "[]"
           and issue = "JObj [(''name'', JStr ''created'')]" and issueId = "JUndefined"]
  from t1 a1 a2 g have r1:
    "fst (createAITicket remote_no_comments demo_agent ''indigo'' ''p1'' ''Add dark mode'' [])
       = Throw (Error ''API error 500: unavailable'')
     \<and> fst (createTicketsFromList remote_no_comments demo_agent ''indigo'' ''p1''
            [''Add dark mode''] [])
     = [\<lparr> entry_success = False, entry_ticket = None,
          entry_error = Some ''API error 500: unavailable'', entry_prompt = ''Add dark mode'' \<rparr>]"
    by simp
  from t2 b1 b2 g have r2:
    "fst (createAITicket remote_accepts demo_agent ''indigo'' ''p1'' ''Add dark mode'' [])
     = Return (JObj [(''id'', JStr ''42'')])"
    by blast
  from t3 c1 g have r3:
    "createAITicket remote_boom demo_agent ''indigo'' ''p1'' ''Add dark mode'' []
     = (Return (JObj [(''name'', JStr ''created'')]),
        snd (createIssue remote_boom demo_agent ''indigo'' ''p1''
               (issueData_of (analyzePrompt ''Add dark mode'')) []))"
    by blast
  show ?thesis
    using a1 a2 b1 b2 c1 g r1 r2 r3 by blast
qed

section \<open>The webhook dispatcher\<close>



section \<open>\<open>RailwayAgent.executeTicket\<close>\<close>





end
